theory Spec2Isabelle
  imports Complex_Main
begin

section \<open>JoSIM Tools command line interface (josim\_tools/tools.py)\<close>

text \<open>
  The development embeds the module \<^verbatim>\<open>tools.py\<close>: its import-time statement
  \<^verbatim>\<open>os.system("")\<close> and the function \<^verbatim>\<open>run()\<close>, which parses the command
  line, loads and validates the configuration and dispatches on the mode.

  Everything \<^verbatim>\<open>run()\<close> calls outside this module (argparse, toml, jsonschema,
  multiprocessing and the sibling modules verify, analysis, optimize, schema and
  configuration) is a collaborator: its result is a field of the record \<open>env\<close>, and each
  call may raise, so each returns \<open>exn + 'a\<close>. The schema the configuration is validated
  against is not part of the module either; what the spec says of it is a definition. What the program does to the outside
  (printing, constructing and calling collaborators, writing a file) is recorded as a list
  of events in program order.
\<close>

subsection \<open>Python values\<close>

text \<open>The value \<^verbatim>\<open>toml.load\<close> returns: a dict of TOML values. A dict keeps insertion
  order, so a table is an association list; a well-formed dict has distinct keys.\<close>

datatype toml =
    TString string
  | TInteger int
  | TFloat real
  | TBoolean bool
  | TArray "toml list"
  | TTable "(string \<times> toml) list"

type_synonym 'v dict = "(string \<times> 'v) list"

datatype exn =
    KeyError string
  | AttributeError string
  | ValueError
  | IndexError
  | AssertionError string
  | SchemaValidationError string
  | SystemExit int
  | FileNotFoundError string
  | TomlDecodeError
  | CollaboratorError string

text \<open>\<^verbatim>\<open>d[key]\<close>: the value, or KeyError.\<close>

definition dict_getitem :: "'v dict \<Rightarrow> string \<Rightarrow> exn + 'v" where
  "dict_getitem d key = (case map_of d key of None \<Rightarrow> Inl (KeyError key) | Some v \<Rightarrow> Inr v)"

text \<open>\<^verbatim>\<open>d.get(key, default)\<close>.\<close>

definition dict_get :: "'v dict \<Rightarrow> string \<Rightarrow> 'v \<Rightarrow> 'v" where
  "dict_get d key dflt = (case map_of d key of None \<Rightarrow> dflt | Some v \<Rightarrow> v)"

text \<open>\<^verbatim>\<open>d[key] = v\<close>: an existing key keeps its position, a new key goes to the end.\<close>

fun dict_setitem :: "'v dict \<Rightarrow> string \<Rightarrow> 'v \<Rightarrow> 'v dict" where
  "dict_setitem [] key v = [(key, v)]"
| "dict_setitem ((k, w) # d) key v =
     (if k = key then (key, v) # d else (k, w) # dict_setitem d key v)"

text \<open>\<^verbatim>\<open>x.items()\<close> on a TOML value: only a table (a dict) has the method.\<close>

fun items :: "toml \<Rightarrow> exn + toml dict" where
  "items (TTable d) = Inr d"
| "items _ = Inl (AttributeError ''items'')"

text \<open>\<^verbatim>\<open>keys_.index(key)\<close>: the first position of the key, or ValueError.\<close>

fun list_index :: "string list \<Rightarrow> string \<Rightarrow> exn + nat" where
  "list_index [] key = Inl ValueError"
| "list_index (k # ks) key =
     (if k = key then Inr 0
      else (case list_index ks key of Inl e \<Rightarrow> Inl e | Inr i \<Rightarrow> Inr (Suc i)))"

text \<open>\<^verbatim>\<open>optimized_point[index]\<close> at a non-negative index: IndexError out of range.\<close>

definition getitem :: "'a list \<Rightarrow> nat \<Rightarrow> exn + 'a" where
  "getitem xs i = (if i < length xs then Inr (xs ! i) else Inl IndexError)"

text \<open>\<^verbatim>\<open>"{}".format(n)\<close> for an int: its decimal digits.\<close>

fun str_nat :: "nat \<Rightarrow> string" where
  "str_nat n =
     (if n < 10 then [''0123456789'' ! n]
      else str_nat (n div 10) @ [''0123456789'' ! (n mod 10)])"

declare str_nat.simps [simp del]

definition str_int :: "int \<Rightarrow> string" where
  "str_int i = (if i < 0 then CHR ''-'' # str_nat (nat (- i)) else str_nat (nat i))"

subsection \<open>Objects of the sibling modules\<close>

text \<open>The classes of \<^verbatim>\<open>configuration.py\<close>, \<^verbatim>\<open>verify.py\<close> and \<^verbatim>\<open>analysis.py\<close> are
  not part of this module. Each is a record of the attributes \<^verbatim>\<open>run()\<close> reads and of
  the table it was built from. Python floats are idealised as reals.\<close>

record VerifyConfiguration =
  verify_table :: toml

record MarginAnalysisConfiguration =
  min_search :: real
  max_search :: real
  margin_table :: toml

record YieldAnalysisConfiguration =
  num_samples :: int
  yield_table :: toml

record OptimizeConfiguration =
  "output" :: "string option"
  optimize_table :: toml

record MarginParameterConfiguration =
  margin_nominal :: real
  margin_parameter_table :: toml

record OptimizerParameterConfiguration =
  optimizer_nominal :: real
  optimizer_parameter_table :: toml

record YieldParameterConfiguration =
  yield_parameter_table :: toml

text \<open>The result of \<^verbatim>\<open>Verifier.verify()\<close>; its truth value is \<open>passed\<close>.\<close>

record VerificationOutcome =
  passed :: bool
  failure_time :: "real option"
  failure_point :: "real list option"

text \<open>What \<^verbatim>\<open>MarginAnalysis.analyse\<close> returns: per parameter a lower and an upper
  bound. \<^verbatim>\<open>run()\<close> only passes it on to the printer.\<close>

type_synonym MarginResult = "(real \<times> real) dict"

text \<open>The counters of a \<^verbatim>\<open>YieldAnalysis\<close> after \<^verbatim>\<open>sample\<close>.\<close>

record YieldResult =
  num_success :: int
  num_total :: int

text \<open>Modelled from the spec: \<^verbatim>\<open>YieldAnalysis.percentage\<close> of analysis.py, which is
  not part of this module. The spec: percentage is \<^verbatim>\<open>num_success / num_total\<close>, defined
  as 0 when \<^verbatim>\<open>num_total == 0\<close>.\<close>

definition percentage :: "YieldResult \<Rightarrow> real" where
  "percentage y =
     (if num_total y = 0 then 0 else real_of_int (num_success y) / real_of_int (num_total y))"

subsection \<open>Events and the collaborators\<close>

record args =
  configuration :: string
  verbose :: bool

datatype event =
    OsSystem string
  | ParseArgs "string list"
  | Print string
  | TomlLoad string
  | SchemaValidate "toml dict"
  | NewVerifier VerifyConfiguration
  | CallVerify VerifyConfiguration
  | NewMarginAnalysis VerifyConfiguration MarginAnalysisConfiguration
  | CallAnalyse "real dict" int
  | PrintMarginAnalysisResult MarginResult real real real real
  | NewYieldAnalysis VerifyConfiguration "YieldParameterConfiguration dict"
  | CallSample int int
  | NewOptimizer VerifyConfiguration MarginAnalysisConfiguration OptimizeConfiguration
      "OptimizerParameterConfiguration dict" bool
  | CallOptimize "real dict"
  | WriteFileWithUpdatedParameters string "real list"

record env =
  version :: string
  cpu_count :: nat
  parse_args :: "string list \<Rightarrow> exn + args"
  read_text :: "string \<Rightarrow> string option"
  toml_loads :: "string \<Rightarrow> toml dict option"
  schema_constraints :: "toml dict \<Rightarrow> exn + unit"
  schema_message :: "toml dict \<Rightarrow> string"
  str_float :: "real \<Rightarrow> string"
  str_point :: "real list \<Rightarrow> string"
  format_1f :: "real \<Rightarrow> string"
  VerifyConfiguration_from_dict :: "toml \<Rightarrow> exn + VerifyConfiguration"
  MarginAnalysisConfiguration_from_dict :: "toml \<Rightarrow> exn + MarginAnalysisConfiguration"
  YieldAnalysisConfiguration_from_dict :: "toml \<Rightarrow> exn + YieldAnalysisConfiguration"
  OptimizeConfiguration_from_dict :: "toml \<Rightarrow> exn + OptimizeConfiguration"
  MarginParameterConfiguration_from_dict :: "toml \<Rightarrow> exn + MarginParameterConfiguration"
  OptimizerParameterConfiguration_from_dict :: "toml \<Rightarrow> exn + OptimizerParameterConfiguration"
  YieldParameterConfiguration_from_dict :: "toml \<Rightarrow> exn + YieldParameterConfiguration"
  Verifier_init :: "VerifyConfiguration \<Rightarrow> exn + unit"
  Verifier_verify :: "VerifyConfiguration \<Rightarrow> exn + VerificationOutcome"
  MarginAnalysis_init :: "VerifyConfiguration \<Rightarrow> MarginAnalysisConfiguration \<Rightarrow> exn + unit"
  MarginAnalysis_analyse ::
    "VerifyConfiguration \<Rightarrow> MarginAnalysisConfiguration \<Rightarrow> real dict \<Rightarrow> int \<Rightarrow> exn + MarginResult"
  margin_uncertainty_lower ::
    "VerifyConfiguration \<Rightarrow> MarginAnalysisConfiguration \<Rightarrow> exn + real"
  margin_uncertainty_upper ::
    "VerifyConfiguration \<Rightarrow> MarginAnalysisConfiguration \<Rightarrow> exn + real"
  YieldAnalysis_init ::
    "VerifyConfiguration \<Rightarrow> YieldParameterConfiguration dict \<Rightarrow> exn + unit"
  YieldAnalysis_sample ::
    "VerifyConfiguration \<Rightarrow> YieldParameterConfiguration dict \<Rightarrow> int \<Rightarrow> int \<Rightarrow> exn + YieldResult"
  Optimizer_init ::
    "VerifyConfiguration \<Rightarrow> MarginAnalysisConfiguration \<Rightarrow> OptimizeConfiguration \<Rightarrow>
     OptimizerParameterConfiguration dict \<Rightarrow> bool \<Rightarrow> exn + unit"
  Optimizer_optimize ::
    "VerifyConfiguration \<Rightarrow> MarginAnalysisConfiguration \<Rightarrow> OptimizeConfiguration \<Rightarrow>
     OptimizerParameterConfiguration dict \<Rightarrow> bool \<Rightarrow> real dict \<Rightarrow> exn + real list"
  write_file_with_updated_parameters :: "string \<Rightarrow> real list \<Rightarrow> exn + unit"

text \<open>\<^verbatim>\<open>toml.load(path)\<close> of the toml package for a path given as a string: it opens the
  file (\<open>read_text\<close> is \<open>None\<close> for a path that names no file) and parses its text
  (\<open>toml_loads\<close> is \<open>None\<close> for text that is not TOML).\<close>

definition toml_load :: "env \<Rightarrow> string \<Rightarrow> exn + toml dict" where
  "toml_load env path =
     (case read_text env path of
        None \<Rightarrow> Inl (FileNotFoundError path)
      | Some text \<Rightarrow>
          (case toml_loads env text of
             None \<Rightarrow> Inl TomlDecodeError
           | Some d \<Rightarrow> Inr d))"

text \<open>Modelled from the spec: the mode entry of \<^verbatim>\<open>SCHEMA_CONFIG\<close> of schema.py, which is
  not part of this module. The spec: a structured configuration selects one mode, verify,
  margin, yield or optimize; unknown or invalid shapes are rejected by schema validation.\<close>

definition schema_mode :: "toml dict \<Rightarrow> bool" where
  "schema_mode cfg =
     (case map_of cfg ''mode'' of
        Some (TString m) \<Rightarrow> m \<in> set [''verify'', ''margin'', ''yield'', ''optimize'']
      | _ \<Rightarrow> False)"

text \<open>Modelled from the spec: the call
  \<^verbatim>\<open>schema_validate(instance=configuration, schema=SCHEMA_CONFIG)\<close>, whose schema (schema.py)
  is not part of this module. The spec: unknown or invalid shapes are rejected by schema
  validation, and the mode is one of the four. So a configuration whose mode entry is not
  one of the four raises \<^verbatim>\<open>SchemaValidationError\<close>; what the schema requires besides
  the mode (\<open>schema_constraints\<close>) and the message of the error (\<open>schema_message\<close>) are
  the environment's.\<close>

definition schema_validate :: "env \<Rightarrow> toml dict \<Rightarrow> exn + unit" where
  "schema_validate env cfg =
     (if schema_mode cfg then schema_constraints env cfg
      else Inl (SchemaValidationError (schema_message env cfg)))"

subsection \<open>Sequencing\<close>

text \<open>A computation is the events it caused and either the exception that ended it or its
  value.\<close>

type_synonym 'a io = "event list \<times> (exn + 'a)"

definition ret :: "'a \<Rightarrow> 'a io" where
  "ret v = ([], Inr v)"

definition raise :: "exn \<Rightarrow> 'a io" where
  "raise e = ([], Inl e)"

definition emit :: "event \<Rightarrow> unit io" where
  "emit ev = ([ev], Inr ())"

text \<open>A call of a collaborator: the event, then its result or its exception.\<close>

definition call :: "event \<Rightarrow> exn + 'a \<Rightarrow> 'a io" where
  "call ev r = ([ev], r)"

text \<open>An expression of this module or a pure collaborator call that may raise.\<close>

definition expr :: "exn + 'a \<Rightarrow> 'a io" where
  "expr r = ([], r)"

definition and_then :: "'a io \<Rightarrow> ('a \<Rightarrow> 'b io) \<Rightarrow> 'b io" where
  "and_then m f =
     (case m of
        (t, Inl e) \<Rightarrow> (t, Inl e)
      | (t, Inr v) \<Rightarrow> (case f v of (t', r) \<Rightarrow> (t @ t', r)))"

definition seq :: "unit io \<Rightarrow> 'b io \<Rightarrow> 'b io" where
  "seq m n = and_then m (\<lambda>_. n)"

subsection \<open>The for statements of run()\<close>

text \<open>\<^verbatim>\<open>for key, item in configuration["parameters"].items(): d[key] = C.from_dict(item)\<close>,
  with \<open>acc\<close> the dict \<^verbatim>\<open>d\<close> built so far.\<close>

fun from_dict_each :: "(toml \<Rightarrow> exn + 'c) \<Rightarrow> toml dict \<Rightarrow> 'c dict \<Rightarrow> exn + 'c dict" where
  "from_dict_each from_dict [] acc = Inr acc"
| "from_dict_each from_dict ((key, item) # rest) acc =
     (case from_dict item of
        Inl e \<Rightarrow> Inl e
      | Inr c \<Rightarrow> from_dict_each from_dict rest (dict_setitem acc key c))"

definition load_parameters :: "(toml \<Rightarrow> exn + 'c) \<Rightarrow> toml dict \<Rightarrow> exn + 'c dict" where
  "load_parameters from_dict cfg =
     (case dict_getitem cfg ''parameters'' of
        Inl e \<Rightarrow> Inl e
      | Inr p \<Rightarrow>
          (case items p of
             Inl e \<Rightarrow> Inl e
           | Inr its \<Rightarrow> from_dict_each from_dict its []))"

text \<open>\<^verbatim>\<open>for key, item in parameters.items(): d[key] = item.nominal\<close>.\<close>

fun nominal_each :: "('c \<Rightarrow> real) \<Rightarrow> 'c dict \<Rightarrow> real dict \<Rightarrow> real dict" where
  "nominal_each nominal [] acc = acc"
| "nominal_each nominal ((key, item) # rest) acc =
     nominal_each nominal rest (dict_setitem acc key (nominal item))"

text \<open>\<^verbatim>\<open>for index, key in enumerate(keys_): index = keys_.index(key);
  margin_analysis_parameters[key] = optimized_point[index]\<close>, over the keys still to visit.\<close>

fun reassociate :: "string list \<Rightarrow> string list \<Rightarrow> real list \<Rightarrow> real dict \<Rightarrow> exn + real dict" where
  "reassociate keys [] optimized_point acc = Inr acc"
| "reassociate keys (key # rest) optimized_point acc =
     (case list_index keys key of
        Inl e \<Rightarrow> Inl e
      | Inr index \<Rightarrow>
          (case getitem optimized_point index of
             Inl e \<Rightarrow> Inl e
           | Inr v \<Rightarrow> reassociate keys rest optimized_point (dict_setitem acc key v)))"

subsection \<open>The modes\<close>

definition num_threads_margin :: "env \<Rightarrow> 'c dict \<Rightarrow> int" where
  "num_threads_margin env margin_parameters =
     min (2 * int (length margin_parameters)) (int (cpu_count env))"

definition num_threads_yield :: "env \<Rightarrow> int \<Rightarrow> int" where
  "num_threads_yield env samples = min samples (int (cpu_count env))"

definition run_verify :: "env \<Rightarrow> toml dict \<Rightarrow> unit io" where
  "run_verify env cfg =
     seq (emit (Print ''=== Verify circuit operation ===''))
    (and_then (expr (dict_getitem cfg ''verify'')) (\<lambda>t.
     and_then (expr (VerifyConfiguration_from_dict env t)) (\<lambda>verify_configuration.
     seq (call (NewVerifier verify_configuration) (Verifier_init env verify_configuration))
    (and_then (call (CallVerify verify_configuration)
                 (Verifier_verify env verify_configuration)) (\<lambda>outcome.
     if passed outcome then emit (Print ''SUCCESS'')
     else
       seq (emit (Print ''FAILURE''))
      (seq (case failure_time outcome of
              None \<Rightarrow> ret ()
            | Some t \<Rightarrow> emit (Print (''  TIME  : '' @ str_float env t)))
           (case failure_point outcome of
              None \<Rightarrow> ret ()
            | Some p \<Rightarrow> emit (Print (''  optimized_point : '' @ str_point env p)))))))))"

text \<open>The call of \<^verbatim>\<open>print_margin_analysis_result\<close>: its arguments are evaluated left to
  right, then the printer runs.\<close>

definition report_margin ::
  "env \<Rightarrow> VerifyConfiguration \<Rightarrow> MarginAnalysisConfiguration \<Rightarrow> MarginResult \<Rightarrow> unit io" where
  "report_margin env verify_configuration margin_configuration result =
     and_then (expr (margin_uncertainty_lower env verify_configuration margin_configuration))
       (\<lambda>lower.
     and_then (expr (margin_uncertainty_upper env verify_configuration margin_configuration))
       (\<lambda>upper.
     emit (PrintMarginAnalysisResult result lower upper
             (min_search margin_configuration) (max_search margin_configuration))))"

definition run_margin :: "env \<Rightarrow> toml dict \<Rightarrow> unit io" where
  "run_margin env cfg =
     seq (emit (Print ''=== Margin analysis ===''))
    (and_then (expr (dict_getitem cfg ''verify'')) (\<lambda>t.
     and_then (expr (VerifyConfiguration_from_dict env t)) (\<lambda>verify_configuration.
     and_then (expr (MarginAnalysisConfiguration_from_dict env
                       (dict_get cfg ''margin'' (TTable [])))) (\<lambda>margin_configuration.
     and_then (expr (load_parameters (MarginParameterConfiguration_from_dict env) cfg))
       (\<lambda>margin_parameters.
     seq (call (NewMarginAnalysis verify_configuration margin_configuration)
            (MarginAnalysis_init env verify_configuration margin_configuration))
    (let num_threads = num_threads_margin env margin_parameters;
         margin_analysis_parameters = nominal_each margin_nominal margin_parameters []
     in and_then (call (CallAnalyse margin_analysis_parameters num_threads)
                    (MarginAnalysis_analyse env verify_configuration margin_configuration
                       margin_analysis_parameters num_threads))
          (report_margin env verify_configuration margin_configuration)))))))"

definition run_yield :: "env \<Rightarrow> toml dict \<Rightarrow> unit io" where
  "run_yield env cfg =
     seq (emit (Print ''=== Yield analysis ===''))
    (and_then (expr (dict_getitem cfg ''verify'')) (\<lambda>t.
     and_then (expr (VerifyConfiguration_from_dict env t)) (\<lambda>verify_configuration.
     and_then (expr (dict_getitem cfg ''yield'')) (\<lambda>y.
     and_then (expr (YieldAnalysisConfiguration_from_dict env y)) (\<lambda>yield_configuration.
     and_then (expr (load_parameters (YieldParameterConfiguration_from_dict env) cfg))
       (\<lambda>yield_parameters.
     let samples = num_samples yield_configuration;
         num_threads = num_threads_yield env samples
     in seq (call (NewYieldAnalysis verify_configuration yield_parameters)
               (YieldAnalysis_init env verify_configuration yield_parameters))
       (and_then (call (CallSample samples num_threads)
                    (YieldAnalysis_sample env verify_configuration yield_parameters
                       samples num_threads)) (\<lambda>yield_analysis.
        emit (Print (''Yield: '' @ str_int (num_success yield_analysis) @ '' / ''
                @ str_int (num_total yield_analysis) @ '' = ''
                @ format_1f env (percentage yield_analysis * 100) @ '' %''))))))))))"

text \<open>The second half of the optimize branch, from the comment
  \<^verbatim>\<open># Margin analysis of the optimized circuit\<close> on.\<close>

definition optimized_margin ::
  "env \<Rightarrow> toml dict \<Rightarrow> OptimizerParameterConfiguration dict \<Rightarrow> real list \<Rightarrow> unit io" where
  "optimized_margin env cfg optimize_parameters optimized_point =
     seq (emit (Print ''=== Optimized circuit margin analysis ===''))
    (and_then (expr (dict_getitem cfg ''verify'')) (\<lambda>t.
     and_then (expr (VerifyConfiguration_from_dict env t)) (\<lambda>verify_configuration.
     and_then (expr (MarginAnalysisConfiguration_from_dict env
                       (dict_get cfg ''margin'' (TTable [])))) (\<lambda>margin_configuration.
     and_then (expr (load_parameters (MarginParameterConfiguration_from_dict env) cfg))
       (\<lambda>margin_parameters.
     seq (call (NewMarginAnalysis verify_configuration margin_configuration)
            (MarginAnalysis_init env verify_configuration margin_configuration))
    (let num_threads = num_threads_margin env margin_parameters;
         keys = map fst optimize_parameters
     in and_then (expr (reassociate keys keys optimized_point []))
          (\<lambda>margin_analysis_parameters.
        and_then (call (CallAnalyse margin_analysis_parameters num_threads)
                    (MarginAnalysis_analyse env verify_configuration margin_configuration
                       margin_analysis_parameters num_threads))
          (report_margin env verify_configuration margin_configuration))))))))"

text \<open>Modelled from the spec: the effects of \<^verbatim>\<open>Optimizer.optimize\<close> of optimize.py, which
  is not part of this module. The spec: the optimizer itself does not write output files;
  that is delegated to the external verifier's file-writer using the optimized point. So
  the call \<^verbatim>\<open>optimizer.optimize(optimization_parameters)\<close> is the one event
  \<open>CallOptimize\<close>, then its result or its exception.\<close>

definition optimizer_optimize ::
  "env \<Rightarrow> VerifyConfiguration \<Rightarrow> MarginAnalysisConfiguration \<Rightarrow> OptimizeConfiguration \<Rightarrow>
   OptimizerParameterConfiguration dict \<Rightarrow> bool \<Rightarrow> real dict \<Rightarrow> real list io" where
  "optimizer_optimize env verify_configuration margin_configuration optimize_configuration
     optimize_parameters verbose_flag optimization_parameters =
     call (CallOptimize optimization_parameters)
       (Optimizer_optimize env verify_configuration margin_configuration
          optimize_configuration optimize_parameters verbose_flag optimization_parameters)"

definition run_optimize :: "env \<Rightarrow> bool \<Rightarrow> toml dict \<Rightarrow> unit io" where
  "run_optimize env verbose_flag cfg =
     seq (emit (Print ''=== Optimize circuit ===''))
    (and_then (expr (dict_getitem cfg ''verify'')) (\<lambda>t.
     and_then (expr (VerifyConfiguration_from_dict env t)) (\<lambda>verify_configuration.
     and_then (expr (MarginAnalysisConfiguration_from_dict env
                       (dict_get cfg ''margin'' (TTable [])))) (\<lambda>margin_configuration.
     and_then (expr (dict_getitem cfg ''optimize'')) (\<lambda>ot.
     and_then (expr (OptimizeConfiguration_from_dict env ot)) (\<lambda>optimize_configuration.
     and_then (expr (load_parameters (OptimizerParameterConfiguration_from_dict env) cfg))
       (\<lambda>optimize_parameters.
     seq (call (NewOptimizer verify_configuration margin_configuration optimize_configuration
                  optimize_parameters verbose_flag)
            (Optimizer_init env verify_configuration margin_configuration
               optimize_configuration optimize_parameters verbose_flag))
    (let optimization_parameters = nominal_each optimizer_nominal optimize_parameters []
     in and_then (optimizer_optimize env verify_configuration margin_configuration
                    optimize_configuration optimize_parameters verbose_flag
                    optimization_parameters) (\<lambda>optimized_point.
        seq (case output optimize_configuration of
               None \<Rightarrow> ret ()
             | Some output_file \<Rightarrow>
                 call (WriteFileWithUpdatedParameters output_file optimized_point)
                   (write_file_with_updated_parameters env output_file optimized_point))
            (optimized_margin env cfg optimize_parameters optimized_point))))))))))"

subsection \<open>run() and the process\<close>

text \<open>The \<^verbatim>\<open>try\<close> block: only \<^verbatim>\<open>SchemaValidationError\<close> is caught; its handler prints
  two lines and calls \<^verbatim>\<open>exit(-1)\<close>, which raises \<^verbatim>\<open>SystemExit\<close>.\<close>

definition validate :: "env \<Rightarrow> toml dict \<Rightarrow> unit io" where
  "validate env cfg =
     seq (emit (SchemaValidate cfg))
       (case schema_validate env cfg of
          Inr u \<Rightarrow> ret ()
        | Inl (SchemaValidationError message) \<Rightarrow>
            seq (emit (Print ''ERROR: configuration file validation failed''))
           (seq (emit (Print (''       reason: '' @ message)))
                (raise (SystemExit (- 1))))
        | Inl e \<Rightarrow> raise e)"

definition dispatch :: "env \<Rightarrow> bool \<Rightarrow> toml dict \<Rightarrow> unit io" where
  "dispatch env verbose_flag cfg =
     and_then (expr (dict_getitem cfg ''mode'')) (\<lambda>mode.
     if mode = TString ''verify'' then run_verify env cfg
     else if mode = TString ''margin'' then run_margin env cfg
     else if mode = TString ''yield'' then run_yield env cfg
     else if mode = TString ''optimize'' then run_optimize env verbose_flag cfg
     else raise (AssertionError ''INTERNAL ERROR: UNREACHABLE CODE in tools.py''))"

definition run :: "env \<Rightarrow> string list \<Rightarrow> unit io" where
  "run env argv =
     and_then (call (ParseArgs argv) (parse_args env argv)) (\<lambda>a.
     seq (emit (Print (''JoSIM Tools '' @ version env)))
    (seq (if verbose a then emit (Print ''Verbose mode enabled'') else ret ())
    (and_then (call (TomlLoad (configuration a)) (toml_load env (configuration a)))
       (\<lambda>cfg.
     seq (validate env cfg) (dispatch env (verbose a) cfg)))))"

text \<open>The process: importing the module runs \<^verbatim>\<open>os.system("")\<close>, then the entry point
  calls \<^verbatim>\<open>run()\<close>.\<close>

definition main :: "env \<Rightarrow> string list \<Rightarrow> unit io" where
  "main env argv = seq (emit (OsSystem '''')) (run env argv)"

text \<open>The exit status of the interpreter: 0 when \<^verbatim>\<open>run()\<close> returns, the low byte of the
  argument of \<^verbatim>\<open>exit\<close>, 1 for any other uncaught exception.\<close>

definition exit_code :: "unit io \<Rightarrow> int" where
  "exit_code r =
     (case snd r of
        Inr u \<Rightarrow> 0
      | Inl (SystemExit n) \<Rightarrow> n mod 256
      | Inl e \<Rightarrow> 1)"

definition trace :: "'a io \<Rightarrow> event list" where
  "trace r = fst r"

definition outcome :: "'a io \<Rightarrow> exn + 'a" where
  "outcome r = snd r"

subsection \<open>Notions the properties are stated with\<close>

text \<open>The events that construct or invoke a core component (Verifier, MarginAnalysis,
  YieldAnalysis, Optimizer) or the verifier's file writer.\<close>

fun core_event :: "event \<Rightarrow> bool" where
  "core_event (NewVerifier vc) = True"
| "core_event (CallVerify vc) = True"
| "core_event (NewMarginAnalysis vc mc) = True"
| "core_event (CallAnalyse ps n) = True"
| "core_event (NewYieldAnalysis vc ps) = True"
| "core_event (CallSample s n) = True"
| "core_event (NewOptimizer vc mc oc ps v) = True"
| "core_event (CallOptimize ps) = True"
| "core_event (WriteFileWithUpdatedParameters path point) = True"
| "core_event ev = False"

text \<open>The events of every run that reaches the mode dispatch.\<close>

definition preamble :: "env \<Rightarrow> string list \<Rightarrow> args \<Rightarrow> toml dict \<Rightarrow> event list" where
  "preamble env argv a cfg =
     [OsSystem '''', ParseArgs argv, Print (''JoSIM Tools '' @ version env)]
     @ (if verbose a then [Print ''Verbose mode enabled''] else [])
     @ [TomlLoad (configuration a), SchemaValidate cfg]"

text \<open>The spec's direct lookup by name: the optimized value of a name is the entry of the
  optimizer's output vector at the position the name has in the optimizer's input.\<close>

definition by_name :: "real dict \<Rightarrow> real list \<Rightarrow> string \<Rightarrow> real option" where
  "by_name optimization_parameters optimized_point =
     map_of (zip (map fst optimization_parameters) optimized_point)"

subsection \<open>An example environment\<close>

definition example_parameters :: toml where
  "example_parameters =
     TTable [(''R1'', TTable [(''nominal'', TFloat 1)]),
             (''L1'', TTable [(''nominal'', TFloat 2)])]"

definition example_configuration :: "string \<Rightarrow> toml dict" where
  "example_configuration m =
     [(''mode'', TString m),
      (''verify'', TTable [(''circuit'', TString ''jtl.cir'')]),
      (''yield'', TTable [(''num_samples'', TInteger 3)]),
      (''optimize'', TTable [(''output'', TString ''out.cir'')]),
      (''parameters'', example_parameters)]"

definition example_nominal :: "toml \<Rightarrow> exn + real" where
  "example_nominal t =
     (case t of
        TTable d \<Rightarrow>
          (case map_of d ''nominal'' of
             Some (TFloat x) \<Rightarrow> Inr x
           | _ \<Rightarrow> Inl (KeyError ''nominal''))
      | _ \<Rightarrow> Inl (CollaboratorError ''not a table''))"

definition example_int :: "toml \<Rightarrow> string \<Rightarrow> exn + int" where
  "example_int t key =
     (case t of
        TTable d \<Rightarrow>
          (case map_of d key of
             Some (TInteger n) \<Rightarrow> Inr n
           | _ \<Rightarrow> Inl (KeyError key))
      | _ \<Rightarrow> Inl (CollaboratorError ''not a table''))"

definition example_output :: "toml \<Rightarrow> string option" where
  "example_output t =
     (case t of
        TTable d \<Rightarrow> (case map_of d ''output'' of Some (TString f) \<Rightarrow> Some f | _ \<Rightarrow> None)
      | _ \<Rightarrow> None)"

definition example_env :: env where
  "example_env = \<lparr>
     version = ''1.0'',
     cpu_count = 8,
     parse_args = (\<lambda>argv.
       case argv of
         [path] \<Rightarrow> Inr \<lparr>configuration = path, verbose = False\<rparr>
       | [flag, path] \<Rightarrow>
           if flag = ''-V'' then Inr \<lparr>configuration = path, verbose = True\<rparr>
           else Inl (SystemExit 2)
       | _ \<Rightarrow> Inl (SystemExit 2)),
     read_text = map_of
       [(''verify.toml'', ''verify''), (''margin.toml'', ''margin''),
        (''yield.toml'', ''yield''), (''optimize.toml'', ''optimize''),
        (''tune.toml'', ''tune''), (''broken.toml'', ''mode = '')],
     toml_loads = (\<lambda>text.
       if text = ''mode = '' then None else Some (example_configuration text)),
     schema_constraints = (\<lambda>cfg. Inr ()),
     schema_message = (\<lambda>cfg. ''mode is not one of the four modes''),
     str_float = (\<lambda>x. ''<float>''),
     str_point = (\<lambda>p. ''<point>''),
     format_1f = (\<lambda>x. ''<float>''),
     VerifyConfiguration_from_dict = (\<lambda>t. Inr \<lparr>verify_table = t\<rparr>),
     MarginAnalysisConfiguration_from_dict = (\<lambda>t.
       Inr \<lparr>min_search = 1 / 1000, max_search = 1 / 2, margin_table = t\<rparr>),
     YieldAnalysisConfiguration_from_dict = (\<lambda>t.
       case example_int t ''num_samples'' of
         Inl e \<Rightarrow> Inl e
       | Inr n \<Rightarrow> Inr \<lparr>num_samples = n, yield_table = t\<rparr>),
     OptimizeConfiguration_from_dict = (\<lambda>t.
       Inr \<lparr>output = example_output t, optimize_table = t\<rparr>),
     MarginParameterConfiguration_from_dict = (\<lambda>t.
       case example_nominal t of
         Inl e \<Rightarrow> Inl e
       | Inr x \<Rightarrow> Inr \<lparr>margin_nominal = x, margin_parameter_table = t\<rparr>),
     OptimizerParameterConfiguration_from_dict = (\<lambda>t.
       case example_nominal t of
         Inl e \<Rightarrow> Inl e
       | Inr x \<Rightarrow> Inr \<lparr>optimizer_nominal = x, optimizer_parameter_table = t\<rparr>),
     YieldParameterConfiguration_from_dict = (\<lambda>t. Inr \<lparr>yield_parameter_table = t\<rparr>),
     Verifier_init = (\<lambda>vc. Inr ()),
     Verifier_verify = (\<lambda>vc.
       Inr \<lparr>passed = False, failure_time = Some 3, failure_point = None\<rparr>),
     MarginAnalysis_init = (\<lambda>vc mc. Inr ()),
     MarginAnalysis_analyse = (\<lambda>vc mc ps n. Inr (map (\<lambda>(k, x). (k, (x / 2, 2 * x))) ps)),
     margin_uncertainty_lower = (\<lambda>vc mc. Inr (min_search mc)),
     margin_uncertainty_upper = (\<lambda>vc mc. Inr (min_search mc)),
     YieldAnalysis_init = (\<lambda>vc ps. Inr ()),
     YieldAnalysis_sample = (\<lambda>vc ps s n. Inr \<lparr>num_success = s - 1, num_total = s\<rparr>),
     Optimizer_init = (\<lambda>vc mc oc ps v. Inr ()),
     Optimizer_optimize = (\<lambda>vc mc oc ps v initial. Inr (map (\<lambda>(k, x). x + 1) initial)),
     write_file_with_updated_parameters = (\<lambda>path point. Inr ())
   \<rparr>"

text \<open>The example environment with an optimize configuration that names no output file.\<close>

definition no_output_env :: env where
  "no_output_env =
     example_env\<lparr>OptimizeConfiguration_from_dict :=
       (\<lambda>t. Inr \<lparr>output = None, optimize_table = t\<rparr>)\<rparr>"

text \<open>The example environment loading a configuration of the mode named by the file's text
  and the given tables only.\<close>

definition tables_env :: "toml dict \<Rightarrow> env" where
  "tables_env tables =
     example_env\<lparr>toml_loads := (\<lambda>text. Some ((''mode'', TString text) # tables))\<rparr>"

section \<open>Lemmas about the sequencing, the dicts and the modes\<close>

subsection \<open>Sequencing\<close>

lemma and_then_Inr [simp]: "and_then (t, Inr v) f = (t @ fst (f v), snd (f v))"
  by (simp add: and_then_def split: prod.splits)

lemma and_then_Inl [simp]: "and_then (t, Inl e) f = (t, Inl e)"
  by (simp add: and_then_def)

lemma trace_and_then:
  "trace (and_then m f) =
     trace m @ (case outcome m of Inl e \<Rightarrow> [] | Inr v \<Rightarrow> trace (f v))"
  by (cases m) (auto simp: trace_def outcome_def split: sum.splits)

lemma outcome_and_then:
  "outcome (and_then m f) =
     (case outcome m of Inl e \<Rightarrow> Inl e | Inr v \<Rightarrow> outcome (f v))"
  by (cases m) (auto simp: trace_def outcome_def split: sum.splits)

lemma trace_seq:
  "trace (seq m n) = trace m @ (case outcome m of Inl e \<Rightarrow> [] | Inr v \<Rightarrow> trace n)"
  by (simp add: seq_def trace_and_then)

lemma outcome_seq:
  "outcome (seq m n) = (case outcome m of Inl e \<Rightarrow> Inl e | Inr v \<Rightarrow> outcome n)"
  by (simp add: seq_def outcome_and_then)

lemma prims [simp]:
  "trace (ret v) = []" "outcome (ret v) = Inr v"
  "trace (raise e) = []" "outcome (raise e) = Inl e"
  "trace (emit ev) = [ev]" "outcome (emit ev) = Inr ()"
  "trace (call ev r) = [ev]" "outcome (call ev r) = r"
  "trace (expr r) = []" "outcome (expr r) = r"
  by (simp_all add: ret_def raise_def emit_def call_def expr_def trace_def outcome_def)

lemmas io_simps = trace_and_then outcome_and_then trace_seq outcome_seq

lemma set_trace_and_then:
  "ev \<in> set (trace (and_then m f)) \<longleftrightarrow>
     ev \<in> set (trace m) \<or> (\<exists>v. outcome m = Inr v \<and> ev \<in> set (trace (f v)))"
  by (auto simp: trace_and_then split: sum.splits)

lemma set_trace_seq:
  "ev \<in> set (trace (seq m n)) \<longleftrightarrow>
     ev \<in> set (trace m) \<or> (\<exists>v. outcome m = Inr v \<and> ev \<in> set (trace n))"
  by (auto simp: trace_seq split: sum.splits)

lemma exit_code_outcome:
  "exit_code r = (case outcome r of Inr u \<Rightarrow> 0 | Inl (SystemExit n) \<Rightarrow> n mod 256 | Inl e \<Rightarrow> 1)"
  by (simp add: exit_code_def outcome_def)

subsection \<open>Dicts and the for statements\<close>

lemma dict_setitem_fresh:
  "key \<notin> fst ` set d \<Longrightarrow> dict_setitem d key v = d @ [(key, v)]"
  by (induction d) auto

lemma keys_dict_setitem:
  "map fst (dict_setitem d key v) =
     (if key \<in> set (map fst d) then map fst d else map fst d @ [key])"
  by (induction d) force+

lemma from_dict_each_keys:
  "from_dict_each fd ps acc = Inr d \<Longrightarrow> distinct (map fst ps) \<Longrightarrow>
   fst ` set ps \<inter> fst ` set acc = {} \<Longrightarrow> map fst d = map fst acc @ map fst ps"
proof (induction fd ps acc rule: from_dict_each.induct)
  case (1 fd acc)
  then show ?case by simp
next
  case (2 fd key item rest acc)
  from "2.prems"(1) obtain c where c: "fd item = Inr c"
    and rest: "from_dict_each fd rest (dict_setitem acc key c) = Inr d"
    by (auto split: sum.splits)
  from "2.prems" have fresh: "key \<notin> fst ` set acc" by auto
  then have upd: "dict_setitem acc key c = acc @ [(key, c)]" by (rule dict_setitem_fresh)
  have "map fst d = map fst (dict_setitem acc key c) @ map fst rest"
    using "2.IH"[OF c rest] "2.prems"(2,3) upd by auto
  then show ?case by (simp add: upd)
qed

lemma from_dict_each_distinct:
  "from_dict_each fd ps acc = Inr d \<Longrightarrow> distinct (map fst acc) \<Longrightarrow> distinct (map fst d)"
proof (induction fd ps acc rule: from_dict_each.induct)
  case (1 fd acc)
  then show ?case by simp
next
  case (2 fd key item rest acc)
  from "2.prems"(1) obtain c where c: "fd item = Inr c"
    and rest: "from_dict_each fd rest (dict_setitem acc key c) = Inr d"
    by (auto split: sum.splits)
  have "distinct (map fst (dict_setitem acc key c))"
    using "2.prems"(2) by (simp add: keys_dict_setitem)
  then show ?case using "2.IH"[OF c rest] by simp
qed

lemma load_parameters_distinct:
  "load_parameters fd cfg = Inr d \<Longrightarrow> distinct (map fst d)"
  by (auto simp: load_parameters_def split: sum.splits dest: from_dict_each_distinct)

lemma load_parameters_keys:
  "load_parameters fd cfg = Inr d \<Longrightarrow> map_of cfg ''parameters'' = Some (TTable ps) \<Longrightarrow>
   distinct (map fst ps) \<Longrightarrow> map fst d = map fst ps"
  by (auto simp: load_parameters_def dict_getitem_def split: sum.splits
      dest!: from_dict_each_keys)

lemma load_parameters_length:
  "load_parameters fd cfg = Inr d \<Longrightarrow> map_of cfg ''parameters'' = Some (TTable ps) \<Longrightarrow>
   distinct (map fst ps) \<Longrightarrow> length d = length ps"
  using load_parameters_keys [of fd cfg d ps] by (metis length_map)

lemma nominal_each_fresh:
  "distinct (map fst d) \<Longrightarrow> fst ` set d \<inter> fst ` set acc = {} \<Longrightarrow>
   nominal_each nominal d acc = acc @ map (\<lambda>(k, c). (k, nominal c)) d"
proof (induction nominal d acc rule: nominal_each.induct)
  case (1 nominal acc)
  then show ?case by simp
next
  case (2 nominal key item rest acc)
  from "2.prems" have "key \<notin> fst ` set acc" by auto
  then have upd: "dict_setitem acc key (nominal item) = acc @ [(key, nominal item)]"
    by (rule dict_setitem_fresh)
  show ?case using "2.IH" "2.prems" by (auto simp: upd)
qed

lemma nominal_each_keys:
  "distinct (map fst d) \<Longrightarrow> map fst (nominal_each nominal d []) = map fst d"
  by (simp add: nominal_each_fresh case_prod_unfold)

lemma list_index_append:
  "key \<notin> set pre \<Longrightarrow> list_index (pre @ key # rest) key = Inr (length pre)"
  by (induction pre) auto

lemma reassociate_suffix:
  "distinct (pre @ rest) \<Longrightarrow> length (pre @ rest) \<le> length point \<Longrightarrow> map fst acc = pre \<Longrightarrow>
   reassociate (pre @ rest) rest point acc = Inr (acc @ zip rest (drop (length pre) point))"
proof (induction rest arbitrary: pre acc)
  case Nil
  then show ?case by simp
next
  case (Cons key rest)
  have idx: "list_index (pre @ key # rest) key = Inr (length pre)"
    using Cons.prems(1) by (intro list_index_append) auto
  have get: "getitem point (length pre) = Inr (point ! length pre)"
    using Cons.prems(2) by (simp add: getitem_def)
  have fresh: "key \<notin> fst ` set acc"
    using Cons.prems(1,3) by (metis distinct_append disjoint_iff list.set_intros(1) set_map)
  have upd: "dict_setitem acc key (point ! length pre) = acc @ [(key, point ! length pre)]"
    using fresh by (rule dict_setitem_fresh)
  have step: "reassociate ((pre @ [key]) @ rest) rest point (acc @ [(key, point ! length pre)]) =
        Inr ((acc @ [(key, point ! length pre)]) @ zip rest (drop (length (pre @ [key])) point))"
    using Cons.prems by (intro Cons.IH) auto
  have dr: "drop (length pre) point = point ! length pre # drop (Suc (length pre)) point"
    using Cons.prems(2) by (simp add: Cons_nth_drop_Suc)
  show ?case using step by (simp add: idx get upd dr)
qed

lemma reassociate_all:
  "distinct keys \<Longrightarrow> length keys \<le> length point \<Longrightarrow>
   reassociate keys keys point [] = Inr (zip keys point)"
  using reassociate_suffix [of "[]" keys point "[]"] by simp

lemma map_of_append_margin:
  "map_of cfg ''margin'' = None \<Longrightarrow>
   map_of (cfg @ [(''margin'', v)]) key = (if key = ''margin'' then Some v else map_of cfg key)"
  by (simp add: map_add_def split: option.splits)

lemma margin_default:
  assumes "map_of cfg ''margin'' = None"
  shows "dict_get cfg ''margin'' (TTable []) = TTable []"
    and "dict_get (cfg @ [(''margin'', TTable [])]) ''margin'' (TTable []) = TTable []"
    and "key \<noteq> ''margin'' \<Longrightarrow> dict_getitem (cfg @ [(''margin'', v)]) key = dict_getitem cfg key"
    and "load_parameters fd (cfg @ [(''margin'', v)]) = load_parameters fd cfg"
  using assms
  by (simp_all add: dict_get_def dict_getitem_def load_parameters_def map_of_append_margin
      del: map_of_append)

subsection \<open>From the process to the mode\<close>

lemma main_loaded:
  assumes "parse_args env argv = Inr a"
    and "toml_load env (configuration a) = Inr cfg"
    and "schema_validate env cfg = Inr ()"
  shows "trace (main env argv) = preamble env argv a cfg @ trace (dispatch env (verbose a) cfg)"
    and "outcome (main env argv) = outcome (dispatch env (verbose a) cfg)"
  using assms by (simp_all add: main_def run_def validate_def preamble_def io_simps)

lemma main_core_events:
  assumes "parse_args env argv = Inr a"
    and "toml_load env (configuration a) = Inr cfg"
    and "core_event ev"
    and "ev \<in> set (trace (main env argv))"
  shows "ev \<in> set (trace (dispatch env (verbose a) cfg))"
  using assms
  by (auto simp: main_def run_def validate_def set_trace_and_then set_trace_seq
      split: sum.splits exn.splits if_splits)

lemma dispatch_mode:
  "map_of cfg ''mode'' = Some (TString ''verify'') \<Longrightarrow> dispatch env v cfg = run_verify env cfg"
  "map_of cfg ''mode'' = Some (TString ''margin'') \<Longrightarrow> dispatch env v cfg = run_margin env cfg"
  "map_of cfg ''mode'' = Some (TString ''yield'') \<Longrightarrow> dispatch env v cfg = run_yield env cfg"
  "map_of cfg ''mode'' = Some (TString ''optimize'') \<Longrightarrow> dispatch env v cfg = run_optimize env v cfg"
  by (simp_all add: dispatch_def dict_getitem_def expr_def)

lemma dispatch_unknown:
  assumes "map_of cfg ''mode'' = Some mode"
    and "mode \<notin> set [TString ''verify'', TString ''margin'', TString ''yield'', TString ''optimize'']"
  shows "dispatch env v cfg = raise (AssertionError ''INTERNAL ERROR: UNREACHABLE CODE in tools.py'')"
  using assms by (simp add: dispatch_def dict_getitem_def expr_def raise_def)

lemma mode_headers:
  "hd (trace (run_verify env cfg)) = Print ''=== Verify circuit operation ===''"
  "hd (trace (run_margin env cfg)) = Print ''=== Margin analysis ===''"
  "hd (trace (run_yield env cfg)) = Print ''=== Yield analysis ===''"
  "hd (trace (run_optimize env v cfg)) = Print ''=== Optimize circuit ===''"
  "trace (run_verify env cfg) \<noteq> []"
  "trace (run_margin env cfg) \<noteq> []"
  "trace (run_yield env cfg) \<noteq> []"
  "trace (run_optimize env v cfg) \<noteq> []"
  by (simp_all add: run_verify_def run_margin_def run_yield_def run_optimize_def trace_seq)

lemma accepted_mode:
  "schema_validate env cfg = Inr () \<Longrightarrow> schema_mode cfg"
  by (simp add: schema_validate_def split: if_splits)

subsection \<open>The analysis calls of a mode\<close>

lemma report_margin_events:
  "ev \<in> set (trace (report_margin env vc mc r)) \<Longrightarrow> \<exists>a b c d. ev = PrintMarginAnalysisResult r a b c d"
  by (auto simp: report_margin_def set_trace_and_then)

lemma run_verify_no_analyse:
  "CallAnalyse p n \<notin> set (trace (run_verify env cfg))"
  "CallSample s n \<notin> set (trace (run_verify env cfg))"
  by (auto simp: run_verify_def set_trace_and_then set_trace_seq split: option.splits if_splits)

lemma run_margin_analyse:
  "CallAnalyse p n \<in> set (trace (run_margin env cfg)) \<Longrightarrow>
     \<exists>mp. load_parameters (MarginParameterConfiguration_from_dict env) cfg = Inr mp
        \<and> n = num_threads_margin env mp"
  by (auto simp: run_margin_def set_trace_and_then set_trace_seq Let_def dest: report_margin_events)

lemma run_margin_no_sample:
  "CallSample s n \<notin> set (trace (run_margin env cfg))"
  by (auto simp: run_margin_def set_trace_and_then set_trace_seq Let_def dest: report_margin_events)

lemma run_yield_no_analyse:
  "CallAnalyse p n \<notin> set (trace (run_yield env cfg))"
  by (auto simp: run_yield_def set_trace_and_then set_trace_seq Let_def)

lemma run_yield_sample:
  "CallSample s n \<in> set (trace (run_yield env cfg)) \<Longrightarrow>
     n = num_threads_yield env s \<and>
     (\<exists>y yc. map_of cfg ''yield'' = Some y \<and> YieldAnalysisConfiguration_from_dict env y = Inr yc
         \<and> s = num_samples yc)"
  by (auto simp: run_yield_def set_trace_and_then set_trace_seq Let_def dict_getitem_def
      split: option.splits)

lemma optimized_margin_analyse:
  "CallAnalyse p n \<in> set (trace (optimized_margin env cfg ops point)) \<Longrightarrow>
     \<exists>mp. load_parameters (MarginParameterConfiguration_from_dict env) cfg = Inr mp
        \<and> n = num_threads_margin env mp"
  by (auto simp: optimized_margin_def set_trace_and_then set_trace_seq Let_def
      dest: report_margin_events)

lemma optimized_margin_no_sample:
  "CallSample s n \<notin> set (trace (optimized_margin env cfg ops point))"
  by (auto simp: optimized_margin_def set_trace_and_then set_trace_seq Let_def
      dest: report_margin_events)

lemma run_optimize_analyse:
  "CallAnalyse p n \<in> set (trace (run_optimize env v cfg)) \<Longrightarrow>
     \<exists>mp. load_parameters (MarginParameterConfiguration_from_dict env) cfg = Inr mp
        \<and> n = num_threads_margin env mp"
  by (auto simp: run_optimize_def optimizer_optimize_def set_trace_and_then set_trace_seq Let_def
      split: option.splits dest: optimized_margin_analyse)

lemma run_optimize_no_sample:
  "CallSample s n \<notin> set (trace (run_optimize env v cfg))"
  by (auto simp: run_optimize_def optimizer_optimize_def set_trace_and_then set_trace_seq Let_def
      optimized_margin_no_sample split: option.splits)

lemma dispatch_analyse:
  "CallAnalyse p n \<in> set (trace (dispatch env v cfg)) \<Longrightarrow>
     \<exists>mp. load_parameters (MarginParameterConfiguration_from_dict env) cfg = Inr mp
        \<and> n = num_threads_margin env mp"
  by (auto simp: dispatch_def set_trace_and_then run_verify_no_analyse run_yield_no_analyse
      split: if_splits dest: run_margin_analyse run_optimize_analyse)

lemma dispatch_sample:
  "CallSample s n \<in> set (trace (dispatch env v cfg)) \<Longrightarrow>
     n = num_threads_yield env s \<and>
     (\<exists>y yc. map_of cfg ''yield'' = Some y \<and> YieldAnalysisConfiguration_from_dict env y = Inr yc
         \<and> s = num_samples yc)"
  by (auto simp: dispatch_def set_trace_and_then run_verify_no_analyse run_margin_no_sample
      run_optimize_no_sample split: if_splits dest: run_yield_sample)

subsection \<open>A mode whose calls all return\<close>


lemma report_margin_returns:
  assumes "margin_uncertainty_lower env vc mc = Inr lo"
    and "margin_uncertainty_upper env vc mc = Inr up"
  shows "trace (report_margin env vc mc r) =
           [PrintMarginAnalysisResult r lo up (min_search mc) (max_search mc)]"
    and "outcome (report_margin env vc mc r) = Inr ()"
  using assms by (simp_all add: report_margin_def io_simps)


lemma run_yield_returns:
  assumes "map_of cfg ''verify'' = Some t"
    and "VerifyConfiguration_from_dict env t = Inr vc"
    and "map_of cfg ''yield'' = Some y"
    and "YieldAnalysisConfiguration_from_dict env y = Inr yc"
    and "load_parameters (YieldParameterConfiguration_from_dict env) cfg = Inr yp"
    and "YieldAnalysis_init env vc yp = Inr ()"
    and "YieldAnalysis_sample env vc yp (num_samples yc) (num_threads_yield env (num_samples yc))
           = Inr yr"
  shows "trace (run_yield env cfg) =
           [Print ''=== Yield analysis ==='', NewYieldAnalysis vc yp,
            CallSample (num_samples yc) (num_threads_yield env (num_samples yc)),
            Print (''Yield: '' @ str_int (num_success yr) @ '' / '' @ str_int (num_total yr)
              @ '' = '' @ format_1f env (percentage yr * 100) @ '' %'')]"
    and "outcome (run_yield env cfg) = Inr ()"
  using assms
  by (simp_all add: run_yield_def dict_getitem_def io_simps Let_def)

lemma optimized_margin_returns:
  assumes "map_of cfg ''verify'' = Some t"
    and "VerifyConfiguration_from_dict env t = Inr vc"
    and "MarginAnalysisConfiguration_from_dict env (dict_get cfg ''margin'' (TTable [])) = Inr mc"
    and "load_parameters (MarginParameterConfiguration_from_dict env) cfg = Inr mp"
    and "MarginAnalysis_init env vc mc = Inr ()"
    and "distinct (map fst ops)"
    and "length ops \<le> length point"
    and "MarginAnalysis_analyse env vc mc (zip (map fst ops) point)
           (num_threads_margin env mp) = Inr r"
    and "margin_uncertainty_lower env vc mc = Inr lo"
    and "margin_uncertainty_upper env vc mc = Inr up"
  shows "trace (optimized_margin env cfg ops point) =
           [Print ''=== Optimized circuit margin analysis ==='', NewMarginAnalysis vc mc,
            CallAnalyse (zip (map fst ops) point) (num_threads_margin env mp),
            PrintMarginAnalysisResult r lo up (min_search mc) (max_search mc)]"
    and "outcome (optimized_margin env cfg ops point) = Inr ()"
  using assms
  by (simp_all add: optimized_margin_def dict_getitem_def io_simps Let_def report_margin_returns
      reassociate_all)

lemma run_optimize_returns:
  assumes "map_of cfg ''verify'' = Some t"
    and "VerifyConfiguration_from_dict env t = Inr vc"
    and "MarginAnalysisConfiguration_from_dict env (dict_get cfg ''margin'' (TTable [])) = Inr mc"
    and "map_of cfg ''optimize'' = Some ot"
    and "OptimizeConfiguration_from_dict env ot = Inr oc"
    and "load_parameters (OptimizerParameterConfiguration_from_dict env) cfg = Inr ops"
    and "Optimizer_init env vc mc oc ops v = Inr ()"
    and "Optimizer_optimize env vc mc oc ops v (nominal_each optimizer_nominal ops []) = Inr point"
    and "length ops \<le> length point"
    and "\<forall>f. output oc = Some f \<longrightarrow> write_file_with_updated_parameters env f point = Inr ()"
    and "load_parameters (MarginParameterConfiguration_from_dict env) cfg = Inr mp"
    and "MarginAnalysis_init env vc mc = Inr ()"
    and "MarginAnalysis_analyse env vc mc (zip (map fst ops) point)
           (num_threads_margin env mp) = Inr r"
    and "margin_uncertainty_lower env vc mc = Inr lo"
    and "margin_uncertainty_upper env vc mc = Inr up"
  shows "trace (run_optimize env v cfg) =
           [Print ''=== Optimize circuit ==='', NewOptimizer vc mc oc ops v,
            CallOptimize (nominal_each optimizer_nominal ops [])]
           @ (case output oc of
                None \<Rightarrow> []
              | Some f \<Rightarrow> [WriteFileWithUpdatedParameters f point])
           @ [Print ''=== Optimized circuit margin analysis ==='', NewMarginAnalysis vc mc,
              CallAnalyse (zip (map fst ops) point) (num_threads_margin env mp),
              PrintMarginAnalysisResult r lo up (min_search mc) (max_search mc)]"
    and "outcome (run_optimize env v cfg) = Inr ()"
proof -
  have d: "distinct (map fst ops)"
    using assms(6) by (rule load_parameters_distinct)
  note om = optimized_margin_returns [OF assms(1,2,3,11,12) d assms(9,13,14,15)]
  show "trace (run_optimize env v cfg) =
           [Print ''=== Optimize circuit ==='', NewOptimizer vc mc oc ops v,
            CallOptimize (nominal_each optimizer_nominal ops [])]
           @ (case output oc of
                None \<Rightarrow> []
              | Some f \<Rightarrow> [WriteFileWithUpdatedParameters f point])
           @ [Print ''=== Optimized circuit margin analysis ==='', NewMarginAnalysis vc mc,
              CallAnalyse (zip (map fst ops) point) (num_threads_margin env mp),
              PrintMarginAnalysisResult r lo up (min_search mc) (max_search mc)]"
    using assms(1-8,10)
    by (simp add: run_optimize_def optimizer_optimize_def dict_getitem_def io_simps Let_def om
        split: option.splits)
  show "outcome (run_optimize env v cfg) = Inr ()"
    using assms(1-8,10)
    by (simp add: run_optimize_def optimizer_optimize_def dict_getitem_def io_simps Let_def om
        split: option.splits)
qed

subsection \<open>Tables that are absent\<close>

lemma run_margin_default:
  assumes "map_of cfg ''margin'' = None"
  shows "run_margin env (cfg @ [(''margin'', TTable [])]) = run_margin env cfg"
  by (simp add: run_margin_def margin_default [OF assms])

lemma run_optimize_default:
  assumes "map_of cfg ''margin'' = None"
  shows "run_optimize env v (cfg @ [(''margin'', TTable [])]) = run_optimize env v cfg"
  by (simp add: run_optimize_def optimized_margin_def margin_default [OF assms])

lemma missing_verify:
  assumes "map_of cfg ''verify'' = None"
  shows "outcome (run_verify env cfg) = Inl (KeyError ''verify'')"
    and "outcome (run_margin env cfg) = Inl (KeyError ''verify'')"
    and "outcome (run_yield env cfg) = Inl (KeyError ''verify'')"
    and "outcome (run_optimize env v cfg) = Inl (KeyError ''verify'')"
  using assms
  by (simp_all add: run_verify_def run_margin_def run_yield_def run_optimize_def
      dict_getitem_def io_simps)

lemma missing_yield:
  assumes "map_of cfg ''verify'' = Some t"
    and "VerifyConfiguration_from_dict env t = Inr vc"
    and "map_of cfg ''yield'' = None"
  shows "outcome (run_yield env cfg) = Inl (KeyError ''yield'')"
  using assms by (simp add: run_yield_def dict_getitem_def io_simps)

lemma missing_optimize:
  assumes "map_of cfg ''verify'' = Some t"
    and "VerifyConfiguration_from_dict env t = Inr vc"
    and "MarginAnalysisConfiguration_from_dict env (dict_get cfg ''margin'' (TTable [])) = Inr mc"
    and "map_of cfg ''optimize'' = None"
  shows "outcome (run_optimize env v cfg) = Inl (KeyError ''optimize'')"
  using assms by (simp add: run_optimize_def dict_getitem_def io_simps)

subsection \<open>The example environment\<close>

lemmas example_defs =
  example_env_def example_configuration_def example_parameters_def example_nominal_def
  example_int_def example_output_def schema_mode_def schema_validate_def toml_load_def

lemmas run_defs =
  main_def run_def validate_def dispatch_def run_verify_def run_margin_def run_yield_def
  run_optimize_def optimized_margin_def optimizer_optimize_def report_margin_def
  load_parameters_def dict_getitem_def dict_get_def getitem_def
  num_threads_margin_def num_threads_yield_def

lemma example_parse:
  "parse_args example_env [path] = Inr \<lparr>configuration = path, verbose = False\<rparr>"
  "parse_args example_env [''-V'', path] = Inr \<lparr>configuration = path, verbose = True\<rparr>"
  by (simp_all add: example_env_def)

lemma example_load:
  "toml_load example_env ''verify.toml'' = Inr (example_configuration ''verify'')"
  "toml_load example_env ''margin.toml'' = Inr (example_configuration ''margin'')"
  "toml_load example_env ''yield.toml'' = Inr (example_configuration ''yield'')"
  "toml_load example_env ''optimize.toml'' = Inr (example_configuration ''optimize'')"
  "toml_load example_env ''tune.toml'' = Inr (example_configuration ''tune'')"
  by (simp_all add: example_env_def toml_load_def)

lemma example_validate:
  "schema_validate example_env (example_configuration ''verify'') = Inr ()"
  "schema_validate example_env (example_configuration ''margin'') = Inr ()"
  "schema_validate example_env (example_configuration ''yield'') = Inr ()"
  "schema_validate example_env (example_configuration ''optimize'') = Inr ()"
  by (simp_all add: example_env_def schema_validate_def schema_mode_def
      example_configuration_def)

lemma example_collaborators:
  "cpu_count example_env = 8"
  "version example_env = ''1.0''"
  "str_float example_env x = ''<float>''"
  "format_1f example_env x = ''<float>''"
  "VerifyConfiguration_from_dict example_env t = Inr \<lparr>verify_table = t\<rparr>"
  "MarginAnalysisConfiguration_from_dict example_env t =
     Inr \<lparr>min_search = 1 / 1000, max_search = 1 / 2, margin_table = t\<rparr>"
  "OptimizeConfiguration_from_dict example_env t =
     Inr \<lparr>output = example_output t, optimize_table = t\<rparr>"
  "Verifier_init example_env vc = Inr ()"
  "Verifier_verify example_env vc =
     Inr \<lparr>passed = False, failure_time = Some 3, failure_point = None\<rparr>"
  "MarginAnalysis_init example_env vc mc = Inr ()"
  "MarginAnalysis_analyse example_env vc mc ps n = Inr (map (\<lambda>(k, x). (k, (x / 2, 2 * x))) ps)"
  "margin_uncertainty_lower example_env vc mc = Inr (min_search mc)"
  "margin_uncertainty_upper example_env vc mc = Inr (min_search mc)"
  "YieldAnalysis_init example_env vc yp = Inr ()"
  "YieldAnalysis_sample example_env vc yp s n = Inr \<lparr>num_success = s - 1, num_total = s\<rparr>"
  "Optimizer_init example_env vc mc oc ops v = Inr ()"
  "Optimizer_optimize example_env vc mc oc ops v initial = Inr (map (\<lambda>(k, x). x + 1) initial)"
  "write_file_with_updated_parameters example_env path point = Inr ()"
  by (simp_all add: example_env_def)

lemma example_tables:
  "map_of (example_configuration m) ''mode'' = Some (TString m)"
  "map_of (example_configuration m) ''verify'' = Some (TTable [(''circuit'', TString ''jtl.cir'')])"
  "map_of (example_configuration m) ''margin'' = None"
  "map_of (example_configuration m) ''yield'' = Some (TTable [(''num_samples'', TInteger 3)])"
  "map_of (example_configuration m) ''optimize'' = Some (TTable [(''output'', TString ''out.cir'')])"
  "map_of (example_configuration m) ''parameters'' =
     Some (TTable [(''R1'', TTable [(''nominal'', TFloat 1)]),
                   (''L1'', TTable [(''nominal'', TFloat 2)])])"
  by (simp_all add: example_configuration_def example_parameters_def)

lemma example_yield_configuration:
  "YieldAnalysisConfiguration_from_dict example_env (TTable [(''num_samples'', TInteger 3)]) =
     Inr \<lparr>num_samples = 3, yield_table = TTable [(''num_samples'', TInteger 3)]\<rparr>"
  by (simp add: example_env_def example_int_def)

lemma example_load_optimize:
  "load_parameters (OptimizerParameterConfiguration_from_dict example_env)
     (example_configuration ''optimize'') =
   Inr [(''R1'', \<lparr>optimizer_nominal = 1,
                  optimizer_parameter_table = TTable [(''nominal'', TFloat 1)]\<rparr>),
        (''L1'', \<lparr>optimizer_nominal = 2,
                  optimizer_parameter_table = TTable [(''nominal'', TFloat 2)]\<rparr>)]"
  by (simp add: load_parameters_def dict_getitem_def example_configuration_def
      example_parameters_def example_env_def example_nominal_def)

lemma example_load_margin:
  "load_parameters (MarginParameterConfiguration_from_dict example_env)
     (example_configuration m) =
   Inr [(''R1'', \<lparr>margin_nominal = 1,
                  margin_parameter_table = TTable [(''nominal'', TFloat 1)]\<rparr>),
        (''L1'', \<lparr>margin_nominal = 2,
                  margin_parameter_table = TTable [(''nominal'', TFloat 2)]\<rparr>)]"
  by (simp add: load_parameters_def dict_getitem_def example_configuration_def
      example_parameters_def example_env_def example_nominal_def)

lemma example_load_yield:
  "load_parameters (YieldParameterConfiguration_from_dict example_env)
     (example_configuration m) =
   Inr [(''R1'', \<lparr>yield_parameter_table = TTable [(''nominal'', TFloat 1)]\<rparr>),
        (''L1'', \<lparr>yield_parameter_table = TTable [(''nominal'', TFloat 2)]\<rparr>)]"
  by (simp add: load_parameters_def dict_getitem_def example_configuration_def
      example_parameters_def example_env_def)

lemma example_run_verify:
  "trace (main example_env [''verify.toml'']) =
     [OsSystem '''', ParseArgs [''verify.toml''], Print ''JoSIM Tools 1.0'',
      TomlLoad ''verify.toml'', SchemaValidate (example_configuration ''verify''),
      Print ''=== Verify circuit operation ==='',
      NewVerifier \<lparr>verify_table = TTable [(''circuit'', TString ''jtl.cir'')]\<rparr>,
      CallVerify \<lparr>verify_table = TTable [(''circuit'', TString ''jtl.cir'')]\<rparr>,
      Print ''FAILURE'', Print ''  TIME  : <float>'']"
  by (simp add: run_defs example_defs io_simps)

lemma example_run_margin:
  "trace (main example_env [''margin.toml'']) =
     [OsSystem '''', ParseArgs [''margin.toml''], Print ''JoSIM Tools 1.0'',
      TomlLoad ''margin.toml'', SchemaValidate (example_configuration ''margin''),
      Print ''=== Margin analysis ==='',
      NewMarginAnalysis \<lparr>verify_table = TTable [(''circuit'', TString ''jtl.cir'')]\<rparr>
        \<lparr>min_search = 1 / 1000, max_search = 1 / 2, margin_table = TTable []\<rparr>,
      CallAnalyse [(''R1'', 1), (''L1'', 2)] 4,
      PrintMarginAnalysisResult [(''R1'', 1 / 2, 2), (''L1'', 1, 4)] (1 / 1000) (1 / 1000)
        (1 / 1000) (1 / 2)]"
  by (simp add: run_defs example_defs io_simps)

lemma example_run_yield:
  "trace (main example_env [''yield.toml'']) =
     [OsSystem '''', ParseArgs [''yield.toml''], Print ''JoSIM Tools 1.0'',
      TomlLoad ''yield.toml'', SchemaValidate (example_configuration ''yield''),
      Print ''=== Yield analysis ==='',
      NewYieldAnalysis \<lparr>verify_table = TTable [(''circuit'', TString ''jtl.cir'')]\<rparr>
        [(''R1'', \<lparr>yield_parameter_table = TTable [(''nominal'', TFloat 1)]\<rparr>),
         (''L1'', \<lparr>yield_parameter_table = TTable [(''nominal'', TFloat 2)]\<rparr>)],
      CallSample 3 3, Print ''Yield: 2 / 3 = <float> %'']"
  by (simp add: run_defs example_defs io_simps str_int_def str_nat.simps)

lemma example_run_optimize:
  "trace (main example_env [''-V'', ''optimize.toml'']) =
     [OsSystem '''', ParseArgs [''-V'', ''optimize.toml''], Print ''JoSIM Tools 1.0'',
      Print ''Verbose mode enabled'', TomlLoad ''optimize.toml'',
      SchemaValidate (example_configuration ''optimize''),
      Print ''=== Optimize circuit ==='',
      NewOptimizer \<lparr>verify_table = TTable [(''circuit'', TString ''jtl.cir'')]\<rparr>
        \<lparr>min_search = 1 / 1000, max_search = 1 / 2, margin_table = TTable []\<rparr>
        \<lparr>output = Some ''out.cir'',
           optimize_table = TTable [(''output'', TString ''out.cir'')]\<rparr>
        [(''R1'', \<lparr>optimizer_nominal = 1,
                     optimizer_parameter_table = TTable [(''nominal'', TFloat 1)]\<rparr>),
         (''L1'', \<lparr>optimizer_nominal = 2,
                     optimizer_parameter_table = TTable [(''nominal'', TFloat 2)]\<rparr>)]
        True,
      CallOptimize [(''R1'', 1), (''L1'', 2)],
      WriteFileWithUpdatedParameters ''out.cir'' [2, 3],
      Print ''=== Optimized circuit margin analysis ==='',
      NewMarginAnalysis \<lparr>verify_table = TTable [(''circuit'', TString ''jtl.cir'')]\<rparr>
        \<lparr>min_search = 1 / 1000, max_search = 1 / 2, margin_table = TTable []\<rparr>,
      CallAnalyse [(''R1'', 2), (''L1'', 3)] 4,
      PrintMarginAnalysisResult [(''R1'', 1, 4), (''L1'', 3 / 2, 6)] (1 / 1000) (1 / 1000)
        (1 / 1000) (1 / 2)]"
  by (simp add: run_defs example_defs io_simps)

lemma tables_facts:
  "parse_args (tables_env ts) [path] = Inr \<lparr>configuration = path, verbose = False\<rparr>"
  "toml_load (tables_env ts) ''verify.toml'' = Inr ((''mode'', TString ''verify'') # ts)"
  "toml_load (tables_env ts) ''yield.toml'' = Inr ((''mode'', TString ''yield'') # ts)"
  "toml_load (tables_env ts) ''optimize.toml'' = Inr ((''mode'', TString ''optimize'') # ts)"
  "schema_validate (tables_env ts) ((''mode'', TString ''verify'') # ts) = Inr ()"
  "schema_validate (tables_env ts) ((''mode'', TString ''yield'') # ts) = Inr ()"
  "schema_validate (tables_env ts) ((''mode'', TString ''optimize'') # ts) = Inr ()"
  "VerifyConfiguration_from_dict (tables_env ts) t = Inr \<lparr>verify_table = t\<rparr>"
  "MarginAnalysisConfiguration_from_dict (tables_env ts) t =
     Inr \<lparr>min_search = 1 / 1000, max_search = 1 / 2, margin_table = t\<rparr>"
  by (simp_all add: tables_env_def example_env_def toml_load_def schema_validate_def
      schema_mode_def)

section \<open>Properties of the command line interface\<close>

text \<open>
  C1. In optimize mode the optimizer's output vector is re-associated with the parameter
  names by index. For a configuration whose parameters table has distinct names and an
  output vector with an entry for every parameter: the keys of \<open>optimize_parameters\<close> are
  the names of the table in order, the dict fed to the optimizer has the same keys in the
  same order, the re-association loop returns the keys paired with the entries of the
  vector at their indices, and looking a name up in that dict is the direct lookup by name.
\<close>

theorem reassociation_by_index_is_by_name:
  assumes "map_of cfg ''parameters'' = Some (TTable ps)"
    and "distinct (map fst ps)"
    and "load_parameters (OptimizerParameterConfiguration_from_dict env) cfg =
           Inr optimize_parameters"
    and "length ps \<le> length optimized_point"
  shows "map fst optimize_parameters = map fst ps
       \<and> map fst (nominal_each optimizer_nominal optimize_parameters []) =
           map fst optimize_parameters
       \<and> reassociate (map fst optimize_parameters) (map fst optimize_parameters)
           optimized_point [] = Inr (zip (map fst optimize_parameters) optimized_point)
       \<and> map_of (zip (map fst optimize_parameters) optimized_point) =
           by_name (nominal_each optimizer_nominal optimize_parameters []) optimized_point"
proof -
  have keys: "map fst optimize_parameters = map fst ps"
    using assms(3,1,2) by (rule load_parameters_keys)
  have d: "distinct (map fst optimize_parameters)"
    using assms(2) keys by simp
  have fed: "map fst (nominal_each optimizer_nominal optimize_parameters []) =
      map fst optimize_parameters"
    using d by (rule nominal_each_keys)
  have len: "length (map fst optimize_parameters) \<le> length optimized_point"
    using assms(4) keys by (metis length_map)
  have re: "reassociate (map fst optimize_parameters) (map fst optimize_parameters)
      optimized_point [] = Inr (zip (map fst optimize_parameters) optimized_point)"
    using d len by (rule reassociate_all)
  show ?thesis using keys fed re by (simp add: by_name_def)
qed

theorem reassociation_by_index_is_by_name_witness:
  "reassociate [''R1'', ''L1''] [''R1'', ''L1''] [2, 3] [] = Inr [(''R1'', 2), (''L1'', 3)]
   \<and> map_of [(''R1'', 2), (''L1'', 3 :: real)] =
       by_name [(''R1'', 1), (''L1'', 2)] [2, 3]"
  using reassociation_by_index_is_by_name [of "example_configuration ''optimize''"
      "[(''R1'', TTable [(''nominal'', TFloat 1)]), (''L1'', TTable [(''nominal'', TFloat 2)])]"
      example_env _ "[2, 3]", OF _ _ example_load_optimize]
  by (simp add: example_configuration_def example_parameters_def)

text \<open>
  C4. A configuration file that parses but fails schema validation: the program prints
  the two lines of the validation error, the second with the validator's reason, and ends
  by \<^verbatim>\<open>exit(-1)\<close>, a non-zero exit status. Up to that exit the events are those of the
  preamble and the two lines: no core component is constructed or invoked.
\<close>

theorem invalid_configuration_exits:
  assumes "parse_args env argv = Inr a"
    and "toml_load env (configuration a) = Inr cfg"
    and "schema_validate env cfg = Inl (SchemaValidationError message)"
  shows "trace (main env argv) =
           preamble env argv a cfg
           @ [Print ''ERROR: configuration file validation failed'',
              Print (''       reason: '' @ message)]
         \<and> outcome (main env argv) = Inl (SystemExit (- 1))
         \<and> exit_code (main env argv) \<noteq> 0
         \<and> \<not> list_ex core_event (trace (main env argv))"
  using assms
  by (simp add: main_def run_def validate_def preamble_def io_simps exit_code_outcome)

theorem invalid_configuration_exits_witness:
  "trace (main example_env [''tune.toml'']) =
     [OsSystem '''', ParseArgs [''tune.toml''], Print ''JoSIM Tools 1.0'',
      TomlLoad ''tune.toml'', SchemaValidate (example_configuration ''tune''),
      Print ''ERROR: configuration file validation failed'',
      Print ''       reason: mode is not one of the four modes'']
   \<and> exit_code (main example_env [''tune.toml'']) \<noteq> 0"
  using invalid_configuration_exits [of example_env "[''tune.toml'']"
      "\<lparr>configuration = ''tune.toml'', verbose = False\<rparr>" "example_configuration ''tune''"
      "''mode is not one of the four modes''"]
  by (simp add: example_env_def toml_load_def schema_validate_def schema_mode_def
      example_configuration_def preamble_def)

text \<open>
  C8. The configuration file is loaded before validation, outside the \<^verbatim>\<open>try\<close> block.
  For a path that names no file, or a file whose text is not TOML, \<^verbatim>\<open>toml_load\<close>
  raises and the exception ends the process uncaught (exit status 1): the run stops at the
  load, validation is never called and the validation error message is never printed.
\<close>

theorem toml_load_failure_uncaught:
  assumes "parse_args env argv = Inr a"
    and "read_text env (configuration a) = None
         \<or> (\<exists>text. read_text env (configuration a) = Some text \<and> toml_loads env text = None)"
  shows "outcome (main env argv) =
           Inl (if read_text env (configuration a) = None
                then FileNotFoundError (configuration a) else TomlDecodeError)
         \<and> exit_code (main env argv) = 1
         \<and> trace (main env argv) =
             [OsSystem '''', ParseArgs argv, Print (''JoSIM Tools '' @ version env)]
             @ (if verbose a then [Print ''Verbose mode enabled''] else [])
             @ [TomlLoad (configuration a)]"
  using assms
  by (auto simp add: main_def run_def io_simps exit_code_outcome toml_load_def)

theorem toml_load_failure_uncaught_witness:
  "outcome (main example_env [''absent.toml'']) = Inl (FileNotFoundError ''absent.toml'')
   \<and> outcome (main example_env [''-V'', ''broken.toml'']) = Inl TomlDecodeError
   \<and> trace (main example_env [''-V'', ''broken.toml'']) =
       [OsSystem '''', ParseArgs [''-V'', ''broken.toml''], Print ''JoSIM Tools 1.0'',
        Print ''Verbose mode enabled'', TomlLoad ''broken.toml'']"
  using toml_load_failure_uncaught [of example_env "[''absent.toml'']"
      "\<lparr>configuration = ''absent.toml'', verbose = False\<rparr>"]
    toml_load_failure_uncaught [of example_env "[''-V'', ''broken.toml'']"
      "\<lparr>configuration = ''broken.toml'', verbose = True\<rparr>"]
  by (simp add: example_env_def)

text \<open>
  C9. Every invocation runs \<^verbatim>\<open>os.system("")\<close> first, as a side effect of importing the
  module: whatever the environment and the command line, it is the first event of the
  process, before the arguments are parsed and so before any mode is selected.
\<close>

theorem os_system_first:
  "take 2 (trace (main env argv)) = [OsSystem '''', ParseArgs argv]"
  by (simp add: main_def run_def io_simps)

text \<open>
  C2. The worker count passed to the analysis engines depends only on the size of the
  workload and on \<^verbatim>\<open>cpu_count()\<close>. In every run on a configuration whose parameters
  table has distinct names, every call of \<^verbatim>\<open>MarginAnalysis.analyse\<close>, in margin mode and
  after the optimization, gets \<open>min (2 * number of parameters) cpu_count\<close> workers, and
  every call of \<^verbatim>\<open>YieldAnalysis.sample\<close> gets \<open>min num_samples cpu_count\<close> workers, where
  \<open>num_samples\<close> is the attribute of the yield configuration; no parameters or no samples
  give zero workers.
\<close>

theorem worker_count:
  assumes "parse_args env argv = Inr a"
    and "toml_load env (configuration a) = Inr cfg"
    and "map_of cfg ''parameters'' = Some (TTable ps)"
    and "distinct (map fst ps)"
  shows "(\<forall>p n. CallAnalyse p n \<in> set (trace (main env argv)) \<longrightarrow>
            n = min (2 * int (length ps)) (int (cpu_count env)) \<and> (ps = [] \<longrightarrow> n = 0))
       \<and> (\<forall>s n. CallSample s n \<in> set (trace (main env argv)) \<longrightarrow>
            n = min s (int (cpu_count env)) \<and> (s = 0 \<longrightarrow> n = 0)
            \<and> (\<exists>y yc. map_of cfg ''yield'' = Some y
                  \<and> YieldAnalysisConfiguration_from_dict env y = Inr yc
                  \<and> s = num_samples yc))"
proof (intro conjI allI impI)
  fix p n
  assume "CallAnalyse p n \<in> set (trace (main env argv))"
  then have "CallAnalyse p n \<in> set (trace (dispatch env (verbose a) cfg))"
    using assms(1,2) by (intro main_core_events) simp_all
  then obtain mp where mp: "load_parameters (MarginParameterConfiguration_from_dict env) cfg = Inr mp"
    and n: "n = num_threads_margin env mp"
    by (blast dest: dispatch_analyse)
  have "length mp = length ps"
    using mp assms(3,4) by (rule load_parameters_length)
  then show "n = min (2 * int (length ps)) (int (cpu_count env))"
    using n by (simp add: num_threads_margin_def)
  then show "n = 0" if "ps = []"
    using that by simp
next
  fix s n
  assume "CallSample s n \<in> set (trace (main env argv))"
  then have "CallSample s n \<in> set (trace (dispatch env (verbose a) cfg))"
    using assms(1,2) by (intro main_core_events) simp_all
  then have *: "n = num_threads_yield env s \<and>
     (\<exists>y yc. map_of cfg ''yield'' = Some y \<and> YieldAnalysisConfiguration_from_dict env y = Inr yc
         \<and> s = num_samples yc)"
    by (rule dispatch_sample)
  then show "n = min s (int (cpu_count env))"
    by (simp add: num_threads_yield_def)
  then show "n = 0" if "s = 0"
    using that by simp
  show "\<exists>y yc. map_of cfg ''yield'' = Some y
          \<and> YieldAnalysisConfiguration_from_dict env y = Inr yc \<and> s = num_samples yc"
    using * by blast
qed

theorem worker_count_witness:
  "CallAnalyse [(''R1'', 1), (''L1'', 2)] 4 \<in> set (trace (main example_env [''margin.toml'']))
   \<and> (4 :: int) = min (2 * int (length [''R1'', ''L1''])) (int (cpu_count example_env))
   \<and> CallSample 3 3 \<in> set (trace (main example_env [''yield.toml'']))
   \<and> (3 :: int) = min 3 (int (cpu_count example_env))"
proof -
  have ps: "map_of (example_configuration m) ''parameters'' =
      Some (TTable [(''R1'', TTable [(''nominal'', TFloat 1)]),
                    (''L1'', TTable [(''nominal'', TFloat 2)])])" for m
    by (simp add: example_configuration_def example_parameters_def)
  have d: "distinct (map fst [(''R1'', TTable [(''nominal'', TFloat 1)]),
                              (''L1'', TTable [(''nominal'', TFloat 2)])])"
    by simp
  note margin = worker_count [OF example_parse(1) _ ps d, of "''margin.toml''" "''margin''"]
  note yield = worker_count [OF example_parse(1) _ ps d, of "''yield.toml''" "''yield''"]
  have a: "CallAnalyse [(''R1'', 1), (''L1'', 2)] 4
      \<in> set (trace (main example_env [''margin.toml'']))"
    by (simp add: example_run_margin)
  have s: "CallSample 3 3 \<in> set (trace (main example_env [''yield.toml'']))"
    by (simp add: example_run_yield)
  from margin a have "(4 :: int) = min (2 * int (length [(''R1'', TTable [(''nominal'', TFloat 1)]),
      (''L1'', TTable [(''nominal'', TFloat 2)])])) (int (cpu_count example_env))"
    by (simp add: example_load)
  moreover from yield s have "(3 :: int) = min 3 (int (cpu_count example_env))"
    by (simp add: example_load)
  ultimately show ?thesis using a s by simp
qed



text \<open>
  C5. The final \<^verbatim>\<open>else\<close> branch, which asserts
  \<^verbatim>\<open>INTERNAL ERROR: UNREACHABLE CODE\<close>, is not reached by a configuration that passed
  schema validation. The validator (its schema taken from the spec) rejects every mode
  outside verify, margin, yield and optimize, so for every accepted configuration the mode
  entry is one of the four, the dispatch is one of the four branches, and the first event
  after the preamble is the header the branch prints; the assertion branch prints nothing.
  A mode outside the four that does reach the dispatch is fatal: no event, the
  AssertionError is raised and not caught by \<^verbatim>\<open>run()\<close>, and the exit status is 1, not
  the handled validation error.
\<close>

theorem unreachable_branch:
  assumes "parse_args env argv = Inr a"
    and "toml_load env (configuration a) = Inr cfg"
    and "schema_validate env cfg = Inr ()"
  shows "(\<exists>m \<in> set [''verify'', ''margin'', ''yield'', ''optimize''].
            map_of cfg ''mode'' = Some (TString m))
       \<and> dispatch env (verbose a) cfg \<in>
            set [run_verify env cfg, run_margin env cfg, run_yield env cfg,
                 run_optimize env (verbose a) cfg]
       \<and> (\<exists>header \<in> set [''=== Verify circuit operation ==='', ''=== Margin analysis ==='',
                           ''=== Yield analysis ==='', ''=== Optimize circuit ===''].
            \<exists>rest. trace (main env argv) = preamble env argv a cfg @ Print header # rest)
       \<and> (\<forall>c v mode. map_of c ''mode'' = Some mode \<longrightarrow>
            mode \<notin> set [TString ''verify'', TString ''margin'', TString ''yield'',
                         TString ''optimize''] \<longrightarrow>
              dispatch env v c =
                ([], Inl (AssertionError ''INTERNAL ERROR: UNREACHABLE CODE in tools.py''))
              \<and> exit_code (dispatch env v c) = 1
              \<and> schema_validate env c \<noteq> Inr ())"
proof (intro conjI allI impI)
  have "schema_mode cfg"
    using assms(3) by (rule accepted_mode)
  then consider "map_of cfg ''mode'' = Some (TString ''verify'')"
    | "map_of cfg ''mode'' = Some (TString ''margin'')"
    | "map_of cfg ''mode'' = Some (TString ''yield'')"
    | "map_of cfg ''mode'' = Some (TString ''optimize'')"
    by (auto simp: schema_mode_def split: option.splits toml.splits)
  note modes = this
  from modes show "\<exists>m \<in> set [''verify'', ''margin'', ''yield'', ''optimize''].
      map_of cfg ''mode'' = Some (TString m)"
    by cases simp_all
  from modes show "dispatch env (verbose a) cfg \<in>
      set [run_verify env cfg, run_margin env cfg, run_yield env cfg,
           run_optimize env (verbose a) cfg]"
    by cases (simp_all add: dispatch_mode)
  note loaded = main_loaded(1) [OF assms]
  have split: "xs = hd xs # tl xs" if "xs \<noteq> []" for xs :: "event list"
    using that by simp
  from modes show "\<exists>header \<in> set [''=== Verify circuit operation ==='',
        ''=== Margin analysis ==='', ''=== Yield analysis ==='', ''=== Optimize circuit ===''].
      \<exists>rest. trace (main env argv) = preamble env argv a cfg @ Print header # rest"
  proof cases
    case 1
    have "trace (main env argv) = preamble env argv a cfg
        @ Print ''=== Verify circuit operation ==='' # tl (trace (run_verify env cfg))"
      using split [OF mode_headers(5), of env cfg]
      by (simp add: loaded dispatch_mode(1) [OF 1] mode_headers(1))
    then show ?thesis by simp
  next
    case 2
    have "trace (main env argv) = preamble env argv a cfg
        @ Print ''=== Margin analysis ==='' # tl (trace (run_margin env cfg))"
      using split [OF mode_headers(6), of env cfg]
      by (simp add: loaded dispatch_mode(2) [OF 2] mode_headers(2))
    then show ?thesis by simp
  next
    case 3
    have "trace (main env argv) = preamble env argv a cfg
        @ Print ''=== Yield analysis ==='' # tl (trace (run_yield env cfg))"
      using split [OF mode_headers(7), of env cfg]
      by (simp add: loaded dispatch_mode(3) [OF 3] mode_headers(3))
    then show ?thesis by simp
  next
    case 4
    have "trace (main env argv) = preamble env argv a cfg
        @ Print ''=== Optimize circuit ==='' # tl (trace (run_optimize env (verbose a) cfg))"
      using split [OF mode_headers(8), of env "verbose a" cfg]
      by (simp add: loaded dispatch_mode(4) [OF 4] mode_headers(4))
    then show ?thesis by simp
  qed
next
  fix c v mode
  assume m: "map_of c ''mode'' = Some mode"
    and u: "mode \<notin> set [TString ''verify'', TString ''margin'', TString ''yield'',
                         TString ''optimize'']"
  show d: "dispatch env v c =
      ([], Inl (AssertionError ''INTERNAL ERROR: UNREACHABLE CODE in tools.py''))"
    using dispatch_unknown [OF m u] by (simp add: raise_def)
  show "exit_code (dispatch env v c) = 1"
    by (simp add: d exit_code_def)
  have "\<not> schema_mode c"
    using m u by (auto simp: schema_mode_def split: toml.splits)
  then show "schema_validate env c \<noteq> Inr ()"
    by (simp add: schema_validate_def)
qed

theorem unreachable_branch_witness:
  "map_of (example_configuration ''verify'') ''mode'' = Some (TString ''verify'')
   \<and> dispatch example_env False (example_configuration ''verify'') =
       run_verify example_env (example_configuration ''verify'')
   \<and> dispatch example_env False (example_configuration ''tune'') =
       ([], Inl (AssertionError ''INTERNAL ERROR: UNREACHABLE CODE in tools.py''))
   \<and> exit_code (dispatch example_env False (example_configuration ''tune'')) = 1
   \<and> schema_validate example_env (example_configuration ''tune'') \<noteq> Inr ()"
proof -
  note inst = unreachable_branch [where env = example_env and argv = "[''verify.toml'']"
      and a = "\<lparr>configuration = ''verify.toml'', verbose = False\<rparr>"
      and cfg = "example_configuration ''verify''"]
  have accepted: "dispatch example_env False (example_configuration ''verify'')
      \<in> set [run_verify example_env (example_configuration ''verify''),
              run_margin example_env (example_configuration ''verify''),
              run_yield example_env (example_configuration ''verify''),
              run_optimize example_env False (example_configuration ''verify'')]"
    using inst by (simp add: example_parse example_load example_validate)
  have verify: "dispatch example_env False (example_configuration ''verify'') =
      run_verify example_env (example_configuration ''verify'')"
    by (simp add: dispatch_mode(1) example_tables)
  have unknown: "dispatch example_env False (example_configuration ''tune'') =
       ([], Inl (AssertionError ''INTERNAL ERROR: UNREACHABLE CODE in tools.py''))
     \<and> exit_code (dispatch example_env False (example_configuration ''tune'')) = 1
     \<and> schema_validate example_env (example_configuration ''tune'') \<noteq> Inr ()"
    using inst [THEN conjunct2, THEN conjunct2, THEN conjunct2, rule_format,
        of "example_configuration ''tune''" "TString ''tune''" False]
    by (simp add: example_parse example_load example_validate example_tables exit_code_def)
  show ?thesis using accepted verify unknown by (simp add: example_tables exit_code_def)
qed

text \<open>
  C6. In yield mode the last line printed is
  \<^verbatim>\<open>Yield: success / total = percentage %\<close>, with the two counters in decimal and the
  percentage (times 100, one decimal) derived from them: \<open>percentage\<close> is
  \<open>num_success / num_total\<close>, and 0 when \<open>num_total\<close> is 0, so no division by zero.
\<close>

theorem yield_report:
  assumes "parse_args env argv = Inr a"
    and "toml_load env (configuration a) = Inr cfg"
    and "schema_validate env cfg = Inr ()"
    and "map_of cfg ''mode'' = Some (TString ''yield'')"
    and "map_of cfg ''verify'' = Some t"
    and "VerifyConfiguration_from_dict env t = Inr vc"
    and "map_of cfg ''yield'' = Some y"
    and "YieldAnalysisConfiguration_from_dict env y = Inr yc"
    and "load_parameters (YieldParameterConfiguration_from_dict env) cfg = Inr yp"
    and "YieldAnalysis_init env vc yp = Inr ()"
    and "YieldAnalysis_sample env vc yp (num_samples yc)
           (num_threads_yield env (num_samples yc)) = Inr yr"
  shows "trace (main env argv) =
           preamble env argv a cfg
           @ [Print ''=== Yield analysis ==='', NewYieldAnalysis vc yp,
              CallSample (num_samples yc) (num_threads_yield env (num_samples yc)),
              Print (''Yield: '' @ str_int (num_success yr) @ '' / '' @ str_int (num_total yr)
                @ '' = '' @ format_1f env (percentage yr * 100) @ '' %'')]
       \<and> percentage yr =
           (if num_total yr = 0 then 0
            else real_of_int (num_success yr) / real_of_int (num_total yr))
       \<and> (num_total yr = 0 \<longrightarrow> percentage yr * 100 = 0)"
  using main_loaded(1) [OF assms(1,2,3)] dispatch_mode(3) [OF assms(4)]
    run_yield_returns(1) [OF assms(5-11)]
  by (simp add: percentage_def)

theorem yield_report_witness:
  "trace (main example_env [''yield.toml'']) =
     preamble example_env [''yield.toml''] \<lparr>configuration = ''yield.toml'', verbose = False\<rparr>
       (example_configuration ''yield'')
     @ [Print ''=== Yield analysis ==='',
        NewYieldAnalysis \<lparr>verify_table = TTable [(''circuit'', TString ''jtl.cir'')]\<rparr>
          [(''R1'', \<lparr>yield_parameter_table = TTable [(''nominal'', TFloat 1)]\<rparr>),
           (''L1'', \<lparr>yield_parameter_table = TTable [(''nominal'', TFloat 2)]\<rparr>)],
        CallSample 3 3, Print ''Yield: 2 / 3 = <float> %'']
   \<and> percentage \<lparr>num_success = 2, num_total = 3\<rparr> = 2 / 3"
  using yield_report [where env = example_env
        and argv = "[''yield.toml'']"
        and a = "\<lparr>configuration = ''yield.toml'', verbose = False\<rparr>"
        and cfg = "example_configuration ''yield''"
        and t = "TTable [(''circuit'', TString ''jtl.cir'')]"
        and vc = "\<lparr>verify_table = TTable [(''circuit'', TString ''jtl.cir'')]\<rparr>"
        and y = "TTable [(''num_samples'', TInteger 3)]"
        and yc = "\<lparr>num_samples = 3, yield_table = TTable [(''num_samples'', TInteger 3)]\<rparr>"
        and yp = "[(''R1'', \<lparr>yield_parameter_table = TTable [(''nominal'', TFloat 1)]\<rparr>),
                   (''L1'', \<lparr>yield_parameter_table = TTable [(''nominal'', TFloat 2)]\<rparr>)]"
        and yr = "\<lparr>num_success = 2, num_total = 3\<rparr>"]
  by (simp add: example_parse example_load example_validate example_tables
      example_collaborators example_load_yield example_yield_configuration
      num_threads_yield_def str_int_def str_nat.simps)

text \<open>
  C7. In optimize mode, once the optimizer has returned the optimized point and the calls
  that follow return: the netlist is written, by the verifier's file writer and with the
  optimized point, exactly when the optimize configuration names an output file; then the
  header of the second analysis is printed and a margin analysis is run on the optimized
  point, re-associated with the parameter names, and its result is printed. The only write
  of the run is that one: the call of the optimizer contributes no write (from the spec).
\<close>

theorem optimize_writes_then_margin:
  assumes "parse_args env argv = Inr a"
    and "toml_load env (configuration a) = Inr cfg"
    and "schema_validate env cfg = Inr ()"
    and "map_of cfg ''mode'' = Some (TString ''optimize'')"
    and "map_of cfg ''verify'' = Some t"
    and "VerifyConfiguration_from_dict env t = Inr vc"
    and "MarginAnalysisConfiguration_from_dict env (dict_get cfg ''margin'' (TTable [])) = Inr mc"
    and "map_of cfg ''optimize'' = Some ot"
    and "OptimizeConfiguration_from_dict env ot = Inr oc"
    and "load_parameters (OptimizerParameterConfiguration_from_dict env) cfg = Inr ops"
    and "Optimizer_init env vc mc oc ops (verbose a) = Inr ()"
    and "Optimizer_optimize env vc mc oc ops (verbose a)
           (nominal_each optimizer_nominal ops []) = Inr point"
    and "length ops \<le> length point"
    and "\<forall>f. output oc = Some f \<longrightarrow> write_file_with_updated_parameters env f point = Inr ()"
    and "load_parameters (MarginParameterConfiguration_from_dict env) cfg = Inr mp"
    and "MarginAnalysis_init env vc mc = Inr ()"
    and "MarginAnalysis_analyse env vc mc (zip (map fst ops) point)
           (num_threads_margin env mp) = Inr r"
    and "margin_uncertainty_lower env vc mc = Inr lo"
    and "margin_uncertainty_upper env vc mc = Inr up"
  shows "trace (main env argv) =
           preamble env argv a cfg
           @ [Print ''=== Optimize circuit ==='', NewOptimizer vc mc oc ops (verbose a),
              CallOptimize (nominal_each optimizer_nominal ops [])]
           @ (case output oc of
                None \<Rightarrow> []
              | Some f \<Rightarrow> [WriteFileWithUpdatedParameters f point])
           @ [Print ''=== Optimized circuit margin analysis ==='', NewMarginAnalysis vc mc,
              CallAnalyse (zip (map fst ops) point) (num_threads_margin env mp),
              PrintMarginAnalysisResult r lo up (min_search mc) (max_search mc)]
       \<and> (\<forall>f p. WriteFileWithUpdatedParameters f p \<in> set (trace (main env argv)) \<longleftrightarrow>
             output oc = Some f \<and> p = point)
       \<and> outcome (main env argv) = Inr ()"
proof -
  note loaded = main_loaded [OF assms(1,2,3)]
  note d = dispatch_mode(4) [OF assms(4)]
  note ro = run_optimize_returns [OF assms(5-19)]
  have tr: "trace (main env argv) =
           preamble env argv a cfg
           @ [Print ''=== Optimize circuit ==='', NewOptimizer vc mc oc ops (verbose a),
              CallOptimize (nominal_each optimizer_nominal ops [])]
           @ (case output oc of
                None \<Rightarrow> []
              | Some f \<Rightarrow> [WriteFileWithUpdatedParameters f point])
           @ [Print ''=== Optimized circuit margin analysis ==='', NewMarginAnalysis vc mc,
              CallAnalyse (zip (map fst ops) point) (num_threads_margin env mp),
              PrintMarginAnalysisResult r lo up (min_search mc) (max_search mc)]"
    by (simp add: loaded d ro)
  have wr: "\<forall>f p. WriteFileWithUpdatedParameters f p \<in> set (trace (main env argv)) \<longleftrightarrow>
             output oc = Some f \<and> p = point"
    by (auto simp: tr preamble_def split: option.splits)
  have "outcome (main env argv) = Inr ()"
    by (simp add: loaded d ro)
  then show ?thesis using tr wr by blast
qed

theorem optimize_writes_then_margin_witness:
  "trace (main example_env [''-V'', ''optimize.toml'']) =
     preamble example_env [''-V'', ''optimize.toml'']
       \<lparr>configuration = ''optimize.toml'', verbose = True\<rparr> (example_configuration ''optimize'')
     @ [Print ''=== Optimize circuit ==='',
        NewOptimizer \<lparr>verify_table = TTable [(''circuit'', TString ''jtl.cir'')]\<rparr>
          \<lparr>min_search = 1 / 1000, max_search = 1 / 2, margin_table = TTable []\<rparr>
          \<lparr>output = Some ''out.cir'',
             optimize_table = TTable [(''output'', TString ''out.cir'')]\<rparr>
          [(''R1'', \<lparr>optimizer_nominal = 1,
                       optimizer_parameter_table = TTable [(''nominal'', TFloat 1)]\<rparr>),
           (''L1'', \<lparr>optimizer_nominal = 2,
                       optimizer_parameter_table = TTable [(''nominal'', TFloat 2)]\<rparr>)]
          True,
        CallOptimize [(''R1'', 1), (''L1'', 2)],
        WriteFileWithUpdatedParameters ''out.cir'' [2, 3],
        Print ''=== Optimized circuit margin analysis ==='',
        NewMarginAnalysis \<lparr>verify_table = TTable [(''circuit'', TString ''jtl.cir'')]\<rparr>
          \<lparr>min_search = 1 / 1000, max_search = 1 / 2, margin_table = TTable []\<rparr>,
        CallAnalyse [(''R1'', 2), (''L1'', 3)] 4,
        PrintMarginAnalysisResult [(''R1'', 1, 4), (''L1'', 3 / 2, 6)] (1 / 1000) (1 / 1000)
          (1 / 1000) (1 / 2)]
   \<and> trace (main no_output_env [''optimize.toml'']) =
     preamble no_output_env [''optimize.toml'']
       \<lparr>configuration = ''optimize.toml'', verbose = False\<rparr> (example_configuration ''optimize'')
     @ [Print ''=== Optimize circuit ==='',
        NewOptimizer \<lparr>verify_table = TTable [(''circuit'', TString ''jtl.cir'')]\<rparr>
          \<lparr>min_search = 1 / 1000, max_search = 1 / 2, margin_table = TTable []\<rparr>
          \<lparr>output = None, optimize_table = TTable [(''output'', TString ''out.cir'')]\<rparr>
          [(''R1'', \<lparr>optimizer_nominal = 1,
                       optimizer_parameter_table = TTable [(''nominal'', TFloat 1)]\<rparr>),
           (''L1'', \<lparr>optimizer_nominal = 2,
                       optimizer_parameter_table = TTable [(''nominal'', TFloat 2)]\<rparr>)]
          False,
        CallOptimize [(''R1'', 1), (''L1'', 2)],
        Print ''=== Optimized circuit margin analysis ==='',
        NewMarginAnalysis \<lparr>verify_table = TTable [(''circuit'', TString ''jtl.cir'')]\<rparr>
          \<lparr>min_search = 1 / 1000, max_search = 1 / 2, margin_table = TTable []\<rparr>,
        CallAnalyse [(''R1'', 2), (''L1'', 3)] 4,
        PrintMarginAnalysisResult [(''R1'', 1, 4), (''L1'', 3 / 2, 6)] (1 / 1000) (1 / 1000)
          (1 / 1000) (1 / 2)]"
proof -
  have written: "trace (main example_env [''-V'', ''optimize.toml'']) =
     preamble example_env [''-V'', ''optimize.toml'']
       \<lparr>configuration = ''optimize.toml'', verbose = True\<rparr> (example_configuration ''optimize'')
     @ [Print ''=== Optimize circuit ==='',
        NewOptimizer \<lparr>verify_table = TTable [(''circuit'', TString ''jtl.cir'')]\<rparr>
          \<lparr>min_search = 1 / 1000, max_search = 1 / 2, margin_table = TTable []\<rparr>
          \<lparr>output = Some ''out.cir'',
             optimize_table = TTable [(''output'', TString ''out.cir'')]\<rparr>
          [(''R1'', \<lparr>optimizer_nominal = 1,
                       optimizer_parameter_table = TTable [(''nominal'', TFloat 1)]\<rparr>),
           (''L1'', \<lparr>optimizer_nominal = 2,
                       optimizer_parameter_table = TTable [(''nominal'', TFloat 2)]\<rparr>)]
          True,
        CallOptimize [(''R1'', 1), (''L1'', 2)],
        WriteFileWithUpdatedParameters ''out.cir'' [2, 3],
        Print ''=== Optimized circuit margin analysis ==='',
        NewMarginAnalysis \<lparr>verify_table = TTable [(''circuit'', TString ''jtl.cir'')]\<rparr>
          \<lparr>min_search = 1 / 1000, max_search = 1 / 2, margin_table = TTable []\<rparr>,
        CallAnalyse [(''R1'', 2), (''L1'', 3)] 4,
        PrintMarginAnalysisResult [(''R1'', 1, 4), (''L1'', 3 / 2, 6)] (1 / 1000) (1 / 1000)
          (1 / 1000) (1 / 2)]"
    using optimize_writes_then_margin [where env = example_env
        and argv = "[''-V'', ''optimize.toml'']"
        and a = "\<lparr>configuration = ''optimize.toml'', verbose = True\<rparr>"
        and cfg = "example_configuration ''optimize''"
        and t = "TTable [(''circuit'', TString ''jtl.cir'')]"
        and vc = "\<lparr>verify_table = TTable [(''circuit'', TString ''jtl.cir'')]\<rparr>"
        and mc = "\<lparr>min_search = 1 / 1000, max_search = 1 / 2, margin_table = TTable []\<rparr>"
        and ot = "TTable [(''output'', TString ''out.cir'')]"
        and oc = "\<lparr>output = Some ''out.cir'',
                    optimize_table = TTable [(''output'', TString ''out.cir'')]\<rparr>"
        and ops = "[(''R1'', \<lparr>optimizer_nominal = 1,
                      optimizer_parameter_table = TTable [(''nominal'', TFloat 1)]\<rparr>),
                    (''L1'', \<lparr>optimizer_nominal = 2,
                      optimizer_parameter_table = TTable [(''nominal'', TFloat 2)]\<rparr>)]"
        and point = "[2, 3]"
        and mp = "[(''R1'', \<lparr>margin_nominal = 1,
                     margin_parameter_table = TTable [(''nominal'', TFloat 1)]\<rparr>),
                   (''L1'', \<lparr>margin_nominal = 2,
                     margin_parameter_table = TTable [(''nominal'', TFloat 2)]\<rparr>)]"
        and r = "[(''R1'', 1, 4), (''L1'', 3 / 2, 6)]"
        and lo = "1 / 1000" and up = "1 / 1000"]
    by (simp add: example_parse example_load example_validate example_tables
        example_collaborators example_load_margin example_load_optimize dict_get_def
        example_output_def num_threads_margin_def)
  have no: "parse_args no_output_env [''optimize.toml''] =
        Inr \<lparr>configuration = ''optimize.toml'', verbose = False\<rparr>"
      "toml_load no_output_env ''optimize.toml'' = Inr (example_configuration ''optimize'')"
      "schema_validate no_output_env (example_configuration ''optimize'') = Inr ()"
      "VerifyConfiguration_from_dict no_output_env t = Inr \<lparr>verify_table = t\<rparr>"
      "MarginAnalysisConfiguration_from_dict no_output_env t =
         Inr \<lparr>min_search = 1 / 1000, max_search = 1 / 2, margin_table = t\<rparr>"
      "OptimizeConfiguration_from_dict no_output_env t =
         Inr \<lparr>output = None, optimize_table = t\<rparr>"
      "OptimizerParameterConfiguration_from_dict no_output_env =
         OptimizerParameterConfiguration_from_dict example_env"
      "MarginParameterConfiguration_from_dict no_output_env =
         MarginParameterConfiguration_from_dict example_env"
      "Optimizer_init no_output_env vc mc oc ops v = Inr ()"
      "Optimizer_optimize no_output_env vc mc oc ops v initial =
         Inr (map (\<lambda>(k, x). x + 1) initial)"
      "MarginAnalysis_init no_output_env vc mc = Inr ()"
      "MarginAnalysis_analyse no_output_env vc mc ps n =
         Inr (map (\<lambda>(k, x). (k, (x / 2, 2 * x))) ps)"
      "margin_uncertainty_lower no_output_env vc mc = Inr (min_search mc)"
      "margin_uncertainty_upper no_output_env vc mc = Inr (min_search mc)"
      "cpu_count no_output_env = 8"
    for t vc mc oc ops v initial ps n
    by (simp_all add: no_output_env_def example_env_def toml_load_def schema_validate_def
        schema_mode_def example_configuration_def)
  have unwritten: "trace (main no_output_env [''optimize.toml'']) =
     preamble no_output_env [''optimize.toml'']
       \<lparr>configuration = ''optimize.toml'', verbose = False\<rparr> (example_configuration ''optimize'')
     @ [Print ''=== Optimize circuit ==='',
        NewOptimizer \<lparr>verify_table = TTable [(''circuit'', TString ''jtl.cir'')]\<rparr>
          \<lparr>min_search = 1 / 1000, max_search = 1 / 2, margin_table = TTable []\<rparr>
          \<lparr>output = None, optimize_table = TTable [(''output'', TString ''out.cir'')]\<rparr>
          [(''R1'', \<lparr>optimizer_nominal = 1,
                       optimizer_parameter_table = TTable [(''nominal'', TFloat 1)]\<rparr>),
           (''L1'', \<lparr>optimizer_nominal = 2,
                       optimizer_parameter_table = TTable [(''nominal'', TFloat 2)]\<rparr>)]
          False,
        CallOptimize [(''R1'', 1), (''L1'', 2)],
        Print ''=== Optimized circuit margin analysis ==='',
        NewMarginAnalysis \<lparr>verify_table = TTable [(''circuit'', TString ''jtl.cir'')]\<rparr>
          \<lparr>min_search = 1 / 1000, max_search = 1 / 2, margin_table = TTable []\<rparr>,
        CallAnalyse [(''R1'', 2), (''L1'', 3)] 4,
        PrintMarginAnalysisResult [(''R1'', 1, 4), (''L1'', 3 / 2, 6)] (1 / 1000) (1 / 1000)
          (1 / 1000) (1 / 2)]"
    using optimize_writes_then_margin [where env = no_output_env
        and argv = "[''optimize.toml'']"
        and a = "\<lparr>configuration = ''optimize.toml'', verbose = False\<rparr>"
        and cfg = "example_configuration ''optimize''"
        and t = "TTable [(''circuit'', TString ''jtl.cir'')]"
        and vc = "\<lparr>verify_table = TTable [(''circuit'', TString ''jtl.cir'')]\<rparr>"
        and mc = "\<lparr>min_search = 1 / 1000, max_search = 1 / 2, margin_table = TTable []\<rparr>"
        and ot = "TTable [(''output'', TString ''out.cir'')]"
        and oc = "\<lparr>output = None,
                    optimize_table = TTable [(''output'', TString ''out.cir'')]\<rparr>"
        and ops = "[(''R1'', \<lparr>optimizer_nominal = 1,
                      optimizer_parameter_table = TTable [(''nominal'', TFloat 1)]\<rparr>),
                    (''L1'', \<lparr>optimizer_nominal = 2,
                      optimizer_parameter_table = TTable [(''nominal'', TFloat 2)]\<rparr>)]"
        and point = "[2, 3]"
        and mp = "[(''R1'', \<lparr>margin_nominal = 1,
                     margin_parameter_table = TTable [(''nominal'', TFloat 1)]\<rparr>),
                   (''L1'', \<lparr>margin_nominal = 2,
                     margin_parameter_table = TTable [(''nominal'', TFloat 2)]\<rparr>)]"
        and r = "[(''R1'', 1, 4), (''L1'', 3 / 2, 6)]"
        and lo = "1 / 1000" and up = "1 / 1000"]
    by (simp add: no example_tables example_load_margin example_load_optimize dict_get_def
        num_threads_margin_def)
  show ?thesis using written unwritten by (rule conjI)
qed

text \<open>
  C10. The \<^verbatim>\<open>[margin]\<close> table is optional: margin mode and optimize mode read it with
  \<^verbatim>\<open>configuration.get("margin", {})\<close>, so a configuration without it runs as the same
  configuration with an empty \<^verbatim>\<open>[margin]\<close> table. The tables \<^verbatim>\<open>[verify]\<close>,
  \<^verbatim>\<open>[yield]\<close> and \<^verbatim>\<open>[optimize]\<close> are indexed directly: when validation lets a
  configuration without one of them through, the mode that reads it ends with an uncaught
  KeyError (exit status 1); \<^verbatim>\<open>[verify]\<close> in every mode, \<^verbatim>\<open>[yield]\<close> in yield mode,
  \<^verbatim>\<open>[optimize]\<close> in optimize mode.
\<close>

theorem margin_table_optional:
  assumes "parse_args env argv = Inr a"
    and "toml_load env (configuration a) = Inr cfg"
    and "schema_validate env cfg = Inr ()"
    and "map_of cfg ''mode'' = Some (TString m)"
  shows "(map_of cfg ''margin'' = None \<longrightarrow>
            dict_get cfg ''margin'' (TTable []) = TTable []
            \<and> run_margin env cfg = run_margin env (cfg @ [(''margin'', TTable [])])
            \<and> run_optimize env (verbose a) cfg =
                run_optimize env (verbose a) (cfg @ [(''margin'', TTable [])]))
       \<and> (m \<in> set [''verify'', ''margin'', ''yield'', ''optimize''] \<longrightarrow>
          map_of cfg ''verify'' = None \<longrightarrow>
            outcome (main env argv) = Inl (KeyError ''verify'')
            \<and> exit_code (main env argv) = 1)
       \<and> (m = ''yield'' \<longrightarrow>
          map_of cfg ''verify'' = Some t \<longrightarrow>
          VerifyConfiguration_from_dict env t = Inr vc \<longrightarrow>
          map_of cfg ''yield'' = None \<longrightarrow>
            outcome (main env argv) = Inl (KeyError ''yield'')
            \<and> exit_code (main env argv) = 1)
       \<and> (m = ''optimize'' \<longrightarrow>
          map_of cfg ''verify'' = Some t \<longrightarrow>
          VerifyConfiguration_from_dict env t = Inr vc \<longrightarrow>
          MarginAnalysisConfiguration_from_dict env (dict_get cfg ''margin'' (TTable [])) = Inr mc \<longrightarrow>
          map_of cfg ''optimize'' = None \<longrightarrow>
            outcome (main env argv) = Inl (KeyError ''optimize'')
            \<and> exit_code (main env argv) = 1)"
proof (intro conjI impI)
  note loaded = main_loaded(2) [OF assms(1,2,3)]
  {
    assume none: "map_of cfg ''margin'' = None"
    show "dict_get cfg ''margin'' (TTable []) = TTable []"
      using none by (rule margin_default(1))
    show "run_margin env cfg = run_margin env (cfg @ [(''margin'', TTable [])])"
      using run_margin_default [OF none] by simp
    show "run_optimize env (verbose a) cfg =
        run_optimize env (verbose a) (cfg @ [(''margin'', TTable [])])"
      using run_optimize_default [OF none] by simp
  }
  {
    assume four: "m \<in> set [''verify'', ''margin'', ''yield'', ''optimize'']"
      and none: "map_of cfg ''verify'' = None"
    show o: "outcome (main env argv) = Inl (KeyError ''verify'')"
      using four assms(4) by (auto simp: loaded dispatch_mode missing_verify [OF none])
    show "exit_code (main env argv) = 1"
      by (simp add: exit_code_outcome o)
  }
  {
    assume "m = ''yield''" and c: "map_of cfg ''verify'' = Some t"
      "VerifyConfiguration_from_dict env t = Inr vc" "map_of cfg ''yield'' = None"
    then have mode: "map_of cfg ''mode'' = Some (TString ''yield'')"
      using assms(4) by simp
    show o: "outcome (main env argv) = Inl (KeyError ''yield'')"
      by (simp add: loaded dispatch_mode(3) [OF mode] missing_yield [OF c])
    show "exit_code (main env argv) = 1"
      by (simp add: exit_code_outcome o)
  }
  {
    assume "m = ''optimize''" and c: "map_of cfg ''verify'' = Some t"
      "VerifyConfiguration_from_dict env t = Inr vc"
      "MarginAnalysisConfiguration_from_dict env (dict_get cfg ''margin'' (TTable [])) = Inr mc"
      "map_of cfg ''optimize'' = None"
    then have mode: "map_of cfg ''mode'' = Some (TString ''optimize'')"
      using assms(4) by simp
    show o: "outcome (main env argv) = Inl (KeyError ''optimize'')"
      by (simp add: loaded dispatch_mode(4) [OF mode] missing_optimize [OF c])
    show "exit_code (main env argv) = 1"
      by (simp add: exit_code_outcome o)
  }
qed

theorem margin_table_optional_witness:
  "run_margin example_env (example_configuration ''margin'') =
     run_margin example_env (example_configuration ''margin'' @ [(''margin'', TTable [])])
   \<and> outcome (main (tables_env []) [''verify.toml'']) = Inl (KeyError ''verify'')
   \<and> outcome (main (tables_env [(''verify'', TTable [])]) [''yield.toml'']) =
       Inl (KeyError ''yield'')
   \<and> outcome (main (tables_env [(''verify'', TTable [])]) [''optimize.toml'']) =
       Inl (KeyError ''optimize'')
   \<and> exit_code (main (tables_env [(''verify'', TTable [])]) [''optimize.toml'']) = 1"
proof -
  have margin: "run_margin example_env (example_configuration ''margin'') =
     run_margin example_env (example_configuration ''margin'' @ [(''margin'', TTable [])])"
    using margin_table_optional [where env = example_env and argv = "[''margin.toml'']"
        and a = "\<lparr>configuration = ''margin.toml'', verbose = False\<rparr>"
        and cfg = "example_configuration ''margin''" and m = "''margin''"]
    by (simp add: example_parse example_load example_validate example_tables)
  have verify: "outcome (main (tables_env []) [''verify.toml'']) = Inl (KeyError ''verify'')"
    using margin_table_optional [where env = "tables_env []" and argv = "[''verify.toml'']"
        and a = "\<lparr>configuration = ''verify.toml'', verbose = False\<rparr>"
        and cfg = "[(''mode'', TString ''verify'')]" and m = "''verify''"]
    by (simp add: tables_facts)
  have yield: "outcome (main (tables_env [(''verify'', TTable [])]) [''yield.toml'']) =
       Inl (KeyError ''yield'')"
    using margin_table_optional [where env = "tables_env [(''verify'', TTable [])]"
        and argv = "[''yield.toml'']"
        and a = "\<lparr>configuration = ''yield.toml'', verbose = False\<rparr>"
        and cfg = "[(''mode'', TString ''yield''), (''verify'', TTable [])]" and m = "''yield''"
        and t = "TTable []" and vc = "\<lparr>verify_table = TTable []\<rparr>"]
    by (simp add: tables_facts)
  have optimize: "outcome (main (tables_env [(''verify'', TTable [])]) [''optimize.toml'']) =
       Inl (KeyError ''optimize'')
     \<and> exit_code (main (tables_env [(''verify'', TTable [])]) [''optimize.toml'']) = 1"
    using margin_table_optional [where env = "tables_env [(''verify'', TTable [])]"
        and argv = "[''optimize.toml'']"
        and a = "\<lparr>configuration = ''optimize.toml'', verbose = False\<rparr>"
        and cfg = "[(''mode'', TString ''optimize''), (''verify'', TTable [])]"
        and m = "''optimize''"
        and t = "TTable []" and vc = "\<lparr>verify_table = TTable []\<rparr>"
        and mc = "\<lparr>min_search = 1 / 1000, max_search = 1 / 2, margin_table = TTable []\<rparr>"]
    by (simp add: tables_facts dict_get_def)
  show ?thesis using margin verify yield optimize by simp
qed

end
